theory Spec2Isabelle
  imports Complex_Main "HOL-Library.Word" "HOL-Library.Multiset"
begin

section \<open>JavaScript strings\<close>

text \<open>
  A JavaScript string is a sequence of UTF-16 code units; \<open>length\<close>, \<open>slice\<close>,
  \<open>startsWith\<close>, \<open>includes\<close>, \<open>===\<close> and the relational operators all work on
  code units. \<open>str\<close> writes an ASCII literal of the source as such a sequence; the other
  code units of a literal are written as numbers.
\<close>

type_synonym jsstring = "16 word list"

definition str :: "string \<Rightarrow> jsstring" where
  "str s = map (\<lambda>c. of_nat (of_char c)) s"

definition esc :: jsstring where
  "esc = [0x1B]"

definition nl :: jsstring where
  "nl = [0x0A]"

text \<open>
  The code units \<^verbatim>\<open>String.prototype.trim\<close> strips: the WhiteSpace and LineTerminator
  productions of ECMAScript (TAB, LF, VT, FF, CR, SP, NBSP, the Unicode space separators,
  LS, PS and the byte order mark).
\<close>

definition isWhiteSpace :: "16 word \<Rightarrow> bool" where
  "isWhiteSpace c =
     (c = 0x09 \<or> c = 0x0A \<or> c = 0x0B \<or> c = 0x0C \<or> c = 0x0D \<or> c = 0x20 \<or> c = 0xA0 \<or>
      c = 0x1680 \<or> (0x2000 \<le> c \<and> c \<le> 0x200A) \<or> c = 0x2028 \<or> c = 0x2029 \<or>
      c = 0x202F \<or> c = 0x205F \<or> c = 0x3000 \<or> c = 0xFEFF)"

definition trim :: "jsstring \<Rightarrow> jsstring" where
  "trim s = rev (dropWhile isWhiteSpace (rev (dropWhile isWhiteSpace s)))"

definition startsWith :: "jsstring \<Rightarrow> jsstring \<Rightarrow> bool" where
  "startsWith s searchString = (take (length searchString) s = searchString)"

text \<open>\<^verbatim>\<open>s.includes(searchString)\<close>: the search string occurs somewhere in \<open>s\<close>.\<close>

fun includes_str :: "jsstring \<Rightarrow> jsstring \<Rightarrow> bool" where
  "includes_str [] searchString = (searchString = [])"
| "includes_str (c # cs) searchString =
     (startsWith (c # cs) searchString \<or> includes_str cs searchString)"

text \<open>The relational operator \<^verbatim>\<open><\<close> on two strings: lexicographic on code units.\<close>

fun js_lt :: "jsstring \<Rightarrow> jsstring \<Rightarrow> bool" where
  "js_lt [] [] = False"
| "js_lt [] (y # ys) = True"
| "js_lt (x # xs) [] = False"
| "js_lt (x # xs) (y # ys) = (x < y \<or> (x = y \<and> js_lt xs ys))"

text \<open>The decimal digits of a natural number, as a template literal prints it.\<close>

fun decimal :: "nat \<Rightarrow> jsstring" where
  "decimal n =
     (if n < 10 then [of_nat (48 + n)]
      else decimal (n div 10) @ [of_nat (48 + n mod 10)])"

declare decimal.simps [simp del]

text \<open>
  \<^verbatim>\<open>xs.forEach((x, index) => f(x, index))\<close> and \<^verbatim>\<open>xs.map((x, index) => f(x, index))\<close>:
  the calls made, in order, with the position of each element.
\<close>

definition forEach_indexed :: "'a list \<Rightarrow> ('a \<Rightarrow> nat \<Rightarrow> 'b) \<Rightarrow> 'b list" where
  "forEach_indexed xs f = map (\<lambda>(index, x). f x index) (enumerate 0 xs)"

section \<open>The terminal panel (TerminalPanel.tsx)\<close>

subsection \<open>The texts written to the terminal\<close>

definition prompt_text :: jsstring where
  "prompt_text = esc @ str ''[32m$ '' @ esc @ str ''[0m''"

definition help_lines :: "jsstring list" where
  "help_lines =
     [esc @ str ''[33mAvailable commands:'' @ esc @ str ''[0m'',
      str ''  '' @ esc @ str ''[96mclaude'' @ esc @
       str ''[0m             - Start Claude Code interactive session'',
      str ''  '' @ esc @ str ''[96mgemini'' @ esc @
       str ''[0m             - Start Gemini CLI interactive session'',
      str ''  '' @ esc @ str ''[96mclaude <prompt>'' @ esc @
       str ''[0m    - Send prompt to Claude Code'',
      str ''  '' @ esc @ str ''[96mgemini <prompt>'' @ esc @
       str ''[0m    - Send prompt to Gemini CLI'',
      str ''  '' @ esc @ str ''[96mclear'' @ esc @ str ''[0m              - Clear terminal'',
      str ''  '' @ esc @ str ''[96mhelp'' @ esc @
       str ''[0m               - Show this help message'',
      str ''  '' @ esc @ str ''[96mstatus'' @ esc @
       str ''[0m             - Show AI agent status'',
      str ''  '' @ esc @ str ''[96mhistory'' @ esc @
       str ''[0m            - Show command history'',
      [],
      esc @ str ''[33mKeyboard shortcuts:'' @ esc @ str ''[0m'',
      str ''  '' @ esc @ str ''[96m'' @ [0x2191] @ str ''/'' @ [0x2193] @ esc @
       str ''[0m                - Navigate command history'',
      str ''  '' @ esc @ str ''[96mCtrl+C'' @ esc @
       str ''[0m             - Copy selected text'',
      str ''  '' @ esc @ str ''[96mCtrl+V'' @ esc @
       str ''[0m             - Paste from clipboard'',
      str ''  '' @ esc @ str ''[96mRight-click'' @ esc @
       str ''[0m        - Copy selected text'',
      []]"

definition status_head :: "jsstring list" where
  "status_head =
     [esc @ str ''[33mAI Agent Status:'' @ esc @ str ''[0m'',
      str ''  '' @ esc @ str ''[32m'' @ [0x25CF] @ esc @
       str ''[0m Claude Code   - Ready (MCP Connected)'',
      str ''  '' @ esc @ str ''[32m'' @ [0x25CF] @ esc @
       str ''[0m Gemini CLI    - Ready (MCP Connected)'']"

definition status_ws :: jsstring where
  "status_ws = str ''  '' @ esc @ str ''[36m'' @ [0x25CF] @ esc @ str ''[0m WebSocket     - ''"

definition history_head :: jsstring where
  "history_head = esc @ str ''[33mCommand History:'' @ esc @ str ''[0m''"

definition history_none :: jsstring where
  "history_none = str ''  '' @ esc @ str ''[90mNo commands in history'' @ esc @ str ''[0m''"

definition history_pre :: jsstring where
  "history_pre = str ''  '' @ esc @ str ''[96m''"

definition history_mid :: jsstring where
  "history_mid = str ''.'' @ esc @ str ''[0m ''"

definition claude_banner :: jsstring where
  "claude_banner = esc @ str ''[96m[Claude Code]'' @ esc @ str ''[0m Processing request...''"

definition gemini_banner :: jsstring where
  "gemini_banner = esc @ str ''[96m[Gemini CLI]'' @ esc @ str ''[0m Processing request...''"

definition echo_pre :: jsstring where
  "echo_pre = esc @ str ''[90m> ''"

definition reset :: jsstring where
  "reset = esc @ str ''[0m''"

definition claude_pre :: jsstring where
  "claude_pre = esc @ str ''[36mClaude:'' @ esc @ str ''[0m I understand you want to ''"

definition claude_post :: jsstring where
  "claude_post = str ''. Here'' @ [0x27] @ str ''s what I would do:''"

definition claude_plan :: "jsstring list" where
  "claude_plan =
     [[],
      str ''1. Analyze the current codebase structure'',
      str ''2. Identify the relevant files and dependencies'',
      str ''3. Implement the requested changes safely'',
      str ''4. Run tests to ensure nothing breaks'',
      [],
      esc @ str ''[33mWould you like me to proceed? (y/n)'' @ esc @ str ''[0m'']"

definition claude_session :: "jsstring list" where
  "claude_session =
     [esc @ str ''[36mClaude Code Interactive Session Started'' @ esc @ str ''[0m'',
      esc @ str ''[90mType your requests and I'' @ [0x27] @
       str ''ll help you with code analysis and editing.'' @ esc @ str ''[0m'']"

definition gemini_pre :: jsstring where
  "gemini_pre = esc @ str ''[35mGemini:'' @ esc @ str ''[0m I can help you with ''"

definition gemini_post :: jsstring where
  "gemini_post = str ''. Let me break this down:''"

definition gemini_plan :: "jsstring list" where
  "gemini_plan =
     [[],
      [0x2022] @ str '' First, I'' @ [0x27] @ str ''ll search for relevant information'',
      [0x2022] @ str '' Then, I'' @ [0x27] @ str ''ll analyze the context and requirements'',
      [0x2022] @ str '' Finally, I'' @ [0x27] @ str ''ll provide a comprehensive solution'',
      [],
      esc @ str ''[33mSearching Google for additional context...'' @ esc @ str ''[0m'']"

definition gemini_session :: "jsstring list" where
  "gemini_session =
     [esc @ str ''[35mGemini CLI Interactive Session Started'' @ esc @ str ''[0m'',
      esc @ str ''[90mI can help with code generation, analysis, and complex queries.'' @ esc @
       str ''[0m'']"

definition system_pre :: jsstring where
  "system_pre = esc @ str ''[90m[System]'' @ esc @ str ''[0m Executing: ''"

definition ls_lines :: "jsstring list" where
  "ls_lines =
     [str ''src/          package.json  README.md'',
      str ''public/       tsconfig.json Dockerfile'',
      str ''node_modules/ vite.config.ts docker-compose.yml'']"

definition pwd_line :: jsstring where
  "pwd_line = str ''/home/project/ai-agent-platform''"

definition notfound_pre :: jsstring where
  "notfound_pre = esc @ str ''[31mCommand not found: ''"

definition notfound_hint :: jsstring where
  "notfound_hint = esc @ str ''[90mTry '' @ [0x22] @ str ''help'' @ [0x22] @
     str '' for available commands'' @ esc @ str ''[0m''"

subsection \<open>handleCommand\<close>

text \<open>
  What a handler does is the sequence of calls it makes, in order: on the terminal
  (\<^verbatim>\<open>clear\<close>, \<^verbatim>\<open>write\<close>, \<^verbatim>\<open>writeln\<close>), on the component state
  (\<^verbatim>\<open>setIsRunning\<close>) and \<^verbatim>\<open>setTimeout(callback, delay)\<close>, whose callback is given by
  the calls it will make.
\<close>

datatype effect =
    Clear
  | Write jsstring
  | Writeln jsstring
  | SetIsRunning bool
  | SetTimeout "effect list" nat

text \<open>
  The values \<^verbatim>\<open>handleCommand\<close> reads from the render in which its effect ran:
  \<^verbatim>\<open>isConnected\<close> and \<^verbatim>\<open>commandHistory\<close>.
\<close>

record closure =
  isConnected :: bool
  commandHistory :: "jsstring list"

datatype agent = Claude | Gemini

text \<open>
  The branch of the \<^verbatim>\<open>if\<close> chain of \<^verbatim>\<open>handleCommand\<close> that a command takes, with
  the \<^verbatim>\<open>prompt = command.slice(6).trim()\<close> of the two agent branches. Each branch
  ends with \<^verbatim>\<open>return\<close>, and the tests are, in this order:
  \<^verbatim>\<open>command === 'clear'\<close>, \<^verbatim>\<open>command === 'help'\<close>, \<^verbatim>\<open>command === 'status'\<close>,
  \<^verbatim>\<open>command === 'history'\<close>, \<^verbatim>\<open>command.startsWith('claude')\<close>,
  \<^verbatim>\<open>command.startsWith('gemini')\<close>; what is left is run as a system command.
\<close>

datatype branch =
    Br_clear | Br_help | Br_status | Br_history
  | Br_agent agent jsstring
  | Br_system

definition handleCommand_branch :: "jsstring \<Rightarrow> branch" where
  "handleCommand_branch command =
     (if command = str ''clear'' then Br_clear
      else if command = str ''help'' then Br_help
      else if command = str ''status'' then Br_status
      else if command = str ''history'' then Br_history
      else if startsWith command (str ''claude'') then Br_agent Claude (trim (drop 6 command))
      else if startsWith command (str ''gemini'') then Br_agent Gemini (trim (drop 6 command))
      else Br_system)"

definition history_line :: "jsstring \<Rightarrow> nat \<Rightarrow> jsstring" where
  "history_line cmd index = history_pre @ decimal (index + 1) @ history_mid @ cmd"

definition claude_branch :: "jsstring \<Rightarrow> effect list" where
  "claude_branch prompt =
     [SetIsRunning True, Writeln claude_banner] @
     (if prompt \<noteq> [] then
        [Writeln (echo_pre @ prompt @ reset),
         SetTimeout
           ([Writeln (claude_pre @ prompt @ claude_post)] @ map Writeln claude_plan @
            [SetIsRunning False]) 2000]
      else
        [SetTimeout (map Writeln claude_session @ [SetIsRunning False]) 1000])"

definition gemini_branch :: "jsstring \<Rightarrow> effect list" where
  "gemini_branch prompt =
     [SetIsRunning True, Writeln gemini_banner] @
     (if prompt \<noteq> [] then
        [Writeln (echo_pre @ prompt @ reset),
         SetTimeout
           ([Writeln (gemini_pre @ prompt @ gemini_post)] @ map Writeln gemini_plan @
            [SetIsRunning False]) 1500]
      else
        [SetTimeout (map Writeln gemini_session @ [SetIsRunning False]) 1000])"

definition system_branch :: "jsstring \<Rightarrow> effect list" where
  "system_branch command =
     [SetIsRunning True, Writeln (system_pre @ command),
      SetTimeout
        ((if command = str ''ls'' then map Writeln ls_lines
          else if command = str ''pwd'' then [Writeln pwd_line]
          else if startsWith command (str ''echo'') then [Writeln (drop 5 command)]
          else [Writeln (notfound_pre @ command @ reset), Writeln notfound_hint]) @
         [SetIsRunning False]) 800]"

definition handleCommand :: "closure \<Rightarrow> jsstring \<Rightarrow> effect list" where
  "handleCommand env command =
     (case handleCommand_branch command of
        Br_clear \<Rightarrow> [Clear, Write prompt_text]
      | Br_help \<Rightarrow> map Writeln help_lines
      | Br_status \<Rightarrow>
          map Writeln status_head @
          [Writeln (status_ws @
             (if isConnected env then str ''Connected'' else str ''Disconnected'')),
           Writeln []]
      | Br_history \<Rightarrow>
          [Writeln history_head] @
          (if length (commandHistory env) = 0 then [Writeln history_none]
           else forEach_indexed (commandHistory env)
                  (\<lambda>cmd index. Writeln (history_line cmd index))) @
          [Writeln []]
      | Br_agent Claude prompt \<Rightarrow> claude_branch prompt
      | Br_agent Gemini prompt \<Rightarrow> gemini_branch prompt
      | Br_system \<Rightarrow> system_branch command)"


text \<open>The sequence numbers the listing of \<^verbatim>\<open>history\<close> prints for a command history.\<close>

definition history_numbers :: "jsstring list \<Rightarrow> nat list" where
  "history_numbers h = forEach_indexed h (\<lambda>cmd index. index + 1)"

subsection \<open>terminal.onData\<close>

text \<open>
  The calls the input handler makes: writes to the terminal, the call of
  \<^verbatim>\<open>handleCommand\<close>, and the three state setters. \<open>SetCommandHistory\<close> is the call
  \<^verbatim>\<open>setCommandHistory(prev => [...prev, currentLine.trim()])\<close>: it hands React an
  updater, which reads the variable \<^verbatim>\<open>currentLine\<close> when React runs it.
\<close>

datatype action =
    TermWrite jsstring
  | CallHandleCommand jsstring
  | SetCurrentCommand jsstring
  | SetCommandHistory
  | SetHistoryIndex int

text \<open>
  \<open>onData currentLine data\<close> is the new value of \<^verbatim>\<open>currentLine\<close> and the calls made.
  \<^verbatim>\<open>char >= ' '\<close> compares two strings.
\<close>

definition onData :: "jsstring \<Rightarrow> jsstring \<Rightarrow> jsstring \<times> action list" where
  "onData currentLine data =
     (if data = [0x0D] then
        ([],
         [TermWrite [0x0D, 0x0A]] @
         (if trim currentLine \<noteq> [] then
            [CallHandleCommand (trim currentLine),
             SetCurrentCommand (trim currentLine),
             SetCommandHistory,
             SetHistoryIndex (- 1)]
          else []) @
         [TermWrite prompt_text])
      else if data = [0x7F] then
        (if length currentLine > 0 then (butlast currentLine, [TermWrite [0x08, 0x20, 0x08]])
         else (currentLine, []))
      else if \<not> js_lt data (str '' '') \<or> data = [0x09] then
        (currentLine @ data, [TermWrite data])
      else (currentLine, []))"

text \<open>A sequence of input events, from the first to the last.\<close>

fun onData_all :: "jsstring \<Rightarrow> jsstring list \<Rightarrow> jsstring \<times> action list" where
  "onData_all currentLine [] = (currentLine, [])"
| "onData_all currentLine (data # rest) =
     (let (currentLine', acts) = onData currentLine data;
          (currentLine'', acts') = onData_all currentLine' rest
      in (currentLine'', acts @ acts'))"

text \<open>The commands routed: the arguments of the calls of \<^verbatim>\<open>handleCommand\<close>.\<close>

fun routed :: "action list \<Rightarrow> jsstring list" where
  "routed [] = []"
| "routed (CallHandleCommand command # acts) = command # routed acts"
| "routed (a # acts) = routed acts"

text \<open>
  The updater \<^verbatim>\<open>prev => [...prev, currentLine.trim()]\<close>, for the value \<^verbatim>\<open>currentLine\<close>
  has when React runs it.
\<close>

definition commandHistory_updater :: "jsstring \<Rightarrow> jsstring list \<Rightarrow> jsstring list" where
  "commandHistory_updater currentLine prev = prev @ [trim currentLine]"

text \<open>
  The state \<^verbatim>\<open>commandHistory\<close> after React has run the updaters of a list of calls, in
  the order of the calls. When React runs an updater (at the call, or at the next render,
  after the handler has reset \<^verbatim>\<open>currentLine\<close>) is React's choice: \<open>reads k\<close> is the value
  of \<^verbatim>\<open>currentLine\<close> that the updater adding the record at position \<open>k\<close> reads.
\<close>

fun commandHistory_after :: "(nat \<Rightarrow> jsstring) \<Rightarrow> action list \<Rightarrow> jsstring list \<Rightarrow> jsstring list" where
  "commandHistory_after reads [] h = h"
| "commandHistory_after reads (SetCommandHistory # acts) h =
     commandHistory_after reads acts (commandHistory_updater (reads (length h)) h)"
| "commandHistory_after reads (a # acts) h = commandHistory_after reads acts h"

text \<open>
  The first token of a line, in the words of the specification: the characters up to the
  first white space, leading white space skipped.
\<close>

definition first_token :: "jsstring \<Rightarrow> jsstring" where
  "first_token line = takeWhile (\<lambda>c. \<not> isWhiteSpace c) (dropWhile isWhiteSpace line)"

text \<open>The keyword of an agent: the literal \<^verbatim>\<open>handleCommand\<close> tests the command with.\<close>

definition keyword :: "agent \<Rightarrow> jsstring" where
  "keyword k = (case k of Claude \<Rightarrow> str ''claude'' | Gemini \<Rightarrow> str ''gemini'')"

section \<open>The agent endpoints (mcp-server.js of the Claude Code and Gemini CLI containers)\<close>

subsection \<open>JavaScript values\<close>

text \<open>
  The values \<^verbatim>\<open>JSON.parse\<close> returns and the handlers build. A number is a finite
  double, which is a rational, or an infinity (the two zeros are one value here: they are
  \<^verbatim>\<open>===\<close> and both falsy).
\<close>

datatype jsnumber = Finite rat | PosInfinity | NegInfinity

datatype jsvalue =
    JUndefined
  | JNull
  | JBool bool
  | JNumber jsnumber
  | JString jsstring
  | JArray "jsvalue list"
  | JObject "(jsstring \<times> jsvalue) list"

datatype js_error = SyntaxError | TypeError

text \<open>\<^verbatim>\<open>!v\<close> is \<open>\<not> truthy v\<close>.\<close>

fun truthy :: "jsvalue \<Rightarrow> bool" where
  "truthy JUndefined = False"
| "truthy JNull = False"
| "truthy (JBool b) = b"
| "truthy (JNumber n) = (n \<noteq> Finite 0)"
| "truthy (JString s) = (s \<noteq> [])"
| "truthy (JArray xs) = True"
| "truthy (JObject fs) = True"

text \<open>
  \<^verbatim>\<open>v.name\<close> for one of the names the handlers read (\<^verbatim>\<open>method\<close>, \<^verbatim>\<open>id\<close>,
  \<^verbatim>\<open>params\<close>, \<^verbatim>\<open>prompt\<close>), none of which is a property of a string, an array, a
  number or a boolean: reading a property of \<^verbatim>\<open>null\<close> or \<^verbatim>\<open>undefined\<close> throws a
  TypeError, an object gives the value of its field of that name or \<^verbatim>\<open>undefined\<close>, and
  every other value gives \<^verbatim>\<open>undefined\<close>.
\<close>

fun get_prop :: "jsvalue \<Rightarrow> jsstring \<Rightarrow> js_error + jsvalue" where
  "get_prop JUndefined name = Inl TypeError"
| "get_prop JNull name = Inl TypeError"
| "get_prop (JObject fs) name = Inr (case map_of fs name of None \<Rightarrow> JUndefined | Some v \<Rightarrow> v)"
| "get_prop v name = Inr JUndefined"

text \<open>\<^verbatim>\<open>v?.name\<close>\<close>

definition get_prop_opt :: "jsvalue \<Rightarrow> jsstring \<Rightarrow> jsvalue" where
  "get_prop_opt v name = (case get_prop v name of Inl e \<Rightarrow> JUndefined | Inr x \<Rightarrow> x)"

text \<open>\<^verbatim>\<open>a || b\<close>\<close>

definition js_or :: "jsvalue \<Rightarrow> jsvalue \<Rightarrow> jsvalue" where
  "js_or a b = (if truthy a then a else b)"

text \<open>
  \<^verbatim>\<open>prompt.includes(searchString)\<close> for a string literal \<open>searchString\<close>: a string has
  \<^verbatim>\<open>String.prototype.includes\<close>, an array \<^verbatim>\<open>Array.prototype.includes\<close> (some element
  is that string); a number, a boolean and an object made by \<^verbatim>\<open>JSON.parse\<close> have no
  function of that name, and the call throws a TypeError, as on \<^verbatim>\<open>null\<close> and
  \<^verbatim>\<open>undefined\<close>.
\<close>

fun js_includes :: "jsvalue \<Rightarrow> jsstring \<Rightarrow> js_error + bool" where
  "js_includes (JString s) searchString = Inr (includes_str s searchString)"
| "js_includes (JArray xs) searchString = Inr (JString searchString \<in> set xs)"
| "js_includes v searchString = Inl TypeError"

text \<open>
  \<^verbatim>\<open>${v}\<close> in a template literal is the abstract operation ToString. A string is
  itself. An array prints through \<^verbatim>\<open>Array.prototype.toString\<close>, that is
  \<^verbatim>\<open>join(',')\<close>: the elements from left to right, \<^verbatim>\<open>null\<close> and \<^verbatim>\<open>undefined\<close> as
  the empty string and every other element by ToString. An object made by
  \<^verbatim>\<open>JSON.parse\<close> has no callable property of its own: without a field \<^verbatim>\<open>toString\<close> it
  prints through \<^verbatim>\<open>Object.prototype.toString\<close>, and with one neither that field nor
  \<^verbatim>\<open>valueOf\<close> yields a primitive, and ToString throws a TypeError. The printing of a
  number, which never throws, is the parameter \<open>printNumber\<close>.
\<close>

function js_toString :: "(jsnumber \<Rightarrow> jsstring) \<Rightarrow> jsvalue \<Rightarrow> js_error + jsstring"
  and array_join :: "(jsnumber \<Rightarrow> jsstring) \<Rightarrow> jsvalue list \<Rightarrow> js_error + jsstring" where
  "js_toString printNumber JUndefined = Inr (str ''undefined'')"
| "js_toString printNumber JNull = Inr (str ''null'')"
| "js_toString printNumber (JBool b) = Inr (if b then str ''true'' else str ''false'')"
| "js_toString printNumber (JNumber n) = Inr (printNumber n)"
| "js_toString printNumber (JString s) = Inr s"
| "js_toString printNumber (JArray xs) = array_join printNumber xs"
| "js_toString printNumber (JObject fs) =
     (case map_of fs (str ''toString'') of
        None \<Rightarrow> Inr (str ''[object Object]'')
      | Some v \<Rightarrow> Inl TypeError)"
| "array_join printNumber [] = Inr []"
| "array_join printNumber (x # xs) =
     (case (if x = JUndefined \<or> x = JNull then Inr [] else js_toString printNumber x) of
        Inl e \<Rightarrow> Inl e
      | Inr next \<Rightarrow>
          if xs = [] then Inr next
          else (case array_join printNumber xs of
                  Inl e \<Rightarrow> Inl e
                | Inr rest \<Rightarrow> Inr (next @ str '','' @ rest)))"
  by pat_completeness auto
termination
  by (relation "measure (\<lambda>a. case a of Inl (p, v) \<Rightarrow> size v | Inr (p, xs) \<Rightarrow> size_list size xs)")
    auto

text \<open>The template literal \<^verbatim>\<open>`pre${v}post`\<close>.\<close>

definition template_literal ::
  "(jsnumber \<Rightarrow> jsstring) \<Rightarrow> jsstring \<Rightarrow> jsvalue \<Rightarrow> jsstring \<Rightarrow> js_error + jsstring" where
  "template_literal printNumber pre v post =
     (case js_toString printNumber v of
        Inl e \<Rightarrow> Inl e
      | Inr s \<Rightarrow> Inr (pre @ s @ post))"

text \<open>A value ToString prints without an exception.\<close>

fun printable :: "jsvalue \<Rightarrow> bool" where
  "printable (JArray xs) = list_all printable xs"
| "printable (JObject fs) = (map_of fs (str ''toString'') = None)"
| "printable v = True"

text \<open>
  The value a client reads from the text \<^verbatim>\<open>JSON.stringify\<close> writes for a value: an
  infinite number is written as \<^verbatim>\<open>null\<close>, as is \<^verbatim>\<open>undefined\<close> in an array; a field
  whose value is \<^verbatim>\<open>undefined\<close> is left out; a finite number is written so that it reads
  back as the same number.
\<close>

fun json_of :: "jsvalue \<Rightarrow> jsvalue" where
  "json_of (JNumber n) = (case n of Finite q \<Rightarrow> JNumber n | _ \<Rightarrow> JNull)"
| "json_of (JArray xs) = JArray (map (\<lambda>x. if x = JUndefined then JNull else json_of x) xs)"
| "json_of (JObject fs) =
     JObject (map (\<lambda>(k, v). (k, json_of v)) (filter (\<lambda>(k, v). v \<noteq> JUndefined) fs))"
| "json_of v = v"

text \<open>A value that holds neither an infinite number nor \<^verbatim>\<open>undefined\<close>.\<close>

fun is_json :: "jsvalue \<Rightarrow> bool" where
  "is_json JUndefined = False"
| "is_json (JNumber n) = (case n of Finite q \<Rightarrow> True | _ \<Rightarrow> False)"
| "is_json (JArray xs) = list_all is_json xs"
| "is_json (JObject fs) = list_all (\<lambda>(k, v). is_json v) fs"
| "is_json v = True"

subsection \<open>createMCPResponse\<close>

record response =
  jsonrpc :: jsstring
  resp_id :: jsvalue
  result :: jsvalue
  error :: jsvalue

text \<open>
  \<^verbatim>\<open>function createMCPResponse(id, result, error = null)\<close>: the third argument is
  optional.
\<close>

definition createMCPResponse :: "jsvalue \<Rightarrow> jsvalue \<Rightarrow> jsvalue option \<Rightarrow> response" where
  "createMCPResponse id_arg result_arg error_arg =
     \<lparr>jsonrpc = str ''2.0'', resp_id = id_arg, result = result_arg,
      error = (case error_arg of None \<Rightarrow> JNull | Some e \<Rightarrow> e)\<rparr>"

text \<open>
  The object \<^verbatim>\<open>createMCPResponse\<close> returns, and what a client reads from the text
  \<^verbatim>\<open>JSON.stringify\<close> writes for it.
\<close>

definition response_object :: "response \<Rightarrow> jsvalue" where
  "response_object r =
     JObject [(str ''jsonrpc'', JString (jsonrpc r)), (str ''id'', resp_id r),
              (str ''result'', result r), (str ''error'', error r)]"

definition emitted :: "response \<Rightarrow> jsvalue" where
  "emitted r = json_of (response_object r)"

definition method_not_found :: jsvalue where
  "method_not_found =
     JObject [(str ''code'', JNumber (Finite (- 32601))),
              (str ''message'', JString (str ''Method not found''))]"

definition parse_error :: jsvalue where
  "parse_error =
     JObject [(str ''code'', JNumber (Finite (- 32700))),
              (str ''message'', JString (str ''Parse error''))]"

subsection \<open>The texts of the simulated agents\<close>

definition claude_ready :: jsstring where
  "claude_ready = str ''Claude Code is ready. I can help with code analysis, editing, and development tasks.''"

definition claude_refactor :: jsstring where
  "claude_refactor = str ''I'' @ [0x27] @ str ''ll help you refactor the code. Here'' @ [0x27] @
     str ''s my analysis:'' @ nl @ nl @ str ''1. Analyzing current code structure...'' @ nl @
     str ''2. Identifying optimization opportunities...'' @ nl @
     str ''3. Proposing refactoring plan...'' @ nl @ nl @
     str ''Ready to proceed with the refactoring?''"

definition claude_test :: jsstring where
  "claude_test = str ''I'' @ [0x27] @ str ''ll help you write comprehensive tests:'' @ nl @ nl @
     str ''1. Analyzing code coverage requirements...'' @ nl @
     str ''2. Setting up test framework...'' @ nl @
     str ''3. Writing unit and integration tests...'' @ nl @ nl @
     str ''Shall I implement the test suite?''"

definition claude_generic_pre :: jsstring where
  "claude_generic_pre = str ''Claude Code: I'' @ [0x27] @ str ''ll help you with '' @ [0x22]"

definition claude_generic_post :: jsstring where
  "claude_generic_post = [0x22] @ str ''. Let me analyze the request and provide a comprehensive solution.''"

definition gemini_ready :: jsstring where
  "gemini_ready = str ''Gemini CLI is ready. I can help with code generation, analysis, and complex queries using Google Search.''"

definition gemini_search_pre :: jsstring where
  "gemini_search_pre = [0xD83D, 0xDD0D] @ str '' Searching Google for information about '' @ [0x22]"

definition gemini_search_post :: jsstring where
  "gemini_search_post = [0x22] @ str ''...'' @ nl @ nl @ str ''Based on the latest search results:'' @ nl @ nl @
     str ''1. Current best practices and trends'' @ nl @
     str ''2. Technical implementation details  '' @ nl @
     str ''3. Community discussions and insights'' @ nl @
     str ''4. Official documentation and resources'' @ nl @ nl @ str ''Here'' @ [0x27] @
     str ''s what I found: [Detailed search-based response would go here]''"

definition gemini_generate_pre :: jsstring where
  "gemini_generate_pre = [0xD83C, 0xDFAF] @ str '' Generating solution for '' @ [0x22]"

definition gemini_generate_post :: jsstring where
  "gemini_generate_post = [0x22] @ str ''...'' @ nl @ nl @ str ''I'' @ [0x27] @ str ''ll create:'' @ nl @
     str ''1. Well-structured, optimized code'' @ nl @ str ''2. Comprehensive documentation'' @
     nl @ str ''3. Best practices implementation'' @ nl @
     str ''4. Error handling and edge cases'' @ nl @ nl @ str ''Here'' @ [0x27] @
     str ''s the generated solution: [Generated code would go here]''"

definition gemini_explain_pre :: jsstring where
  "gemini_explain_pre = [0xD83D, 0xDCCA] @ str '' Analyzing '' @ [0x22]"

definition gemini_explain_post :: jsstring where
  "gemini_explain_post = [0x22] @ str ''...'' @ nl @ nl @ str ''Let me break this down:'' @ nl @ [0x2022] @
     str '' Core concepts and principles'' @ nl @ [0x2022] @
     str '' Technical implementation details'' @ nl @ [0x2022] @
     str '' Real-world applications'' @ nl @ [0x2022] @ str '' Performance considerations'' @
     nl @ nl @ str ''Detailed explanation: [Analysis would go here]''"

definition gemini_generic_pre :: jsstring where
  "gemini_generic_pre = str ''Gemini CLI: I'' @ [0x27] @ str ''ll help you with '' @ [0x22]"

definition gemini_generic_post :: jsstring where
  "gemini_generic_post = [0x22] @
     str ''. Let me search for the latest information and provide a comprehensive solution.'' @
     nl @ nl @ [0xD83D, 0xDD0D] @ str '' Searching for relevant information...'' @ nl @
     [0xD83D, 0xDCCA] @ str '' Analyzing current trends...'' @ nl @ [0xD83D, 0xDCA1] @
     str '' Preparing detailed recommendations...'' @ nl @ nl @
     str ''Ready to provide you with the complete solution!''"

subsection \<open>processClaudeRequest and processGeminiRequest\<close>

definition processClaudeRequest :: "(jsnumber \<Rightarrow> jsstring) \<Rightarrow> jsvalue \<Rightarrow> js_error + jsstring" where
  "processClaudeRequest printNumber prompt =
     (if \<not> truthy prompt then Inr claude_ready
      else case js_includes prompt (str ''refactor'') of
        Inl e \<Rightarrow> Inl e
      | Inr True \<Rightarrow> Inr claude_refactor
      | Inr False \<Rightarrow>
         (case js_includes prompt (str ''test'') of
            Inl e \<Rightarrow> Inl e
          | Inr True \<Rightarrow> Inr claude_test
          | Inr False \<Rightarrow>
              template_literal printNumber claude_generic_pre prompt claude_generic_post))"

text \<open>\<^verbatim>\<open>prompt.includes(a) || prompt.includes(b)\<close>\<close>

definition includes_either :: "jsvalue \<Rightarrow> jsstring \<Rightarrow> jsstring \<Rightarrow> js_error + bool" where
  "includes_either prompt a b =
     (case js_includes prompt a of
        Inl e \<Rightarrow> Inl e
      | Inr True \<Rightarrow> Inr True
      | Inr False \<Rightarrow> js_includes prompt b)"

definition processGeminiRequest :: "(jsnumber \<Rightarrow> jsstring) \<Rightarrow> jsvalue \<Rightarrow> js_error + jsstring" where
  "processGeminiRequest printNumber prompt =
     (if \<not> truthy prompt then Inr gemini_ready
      else case includes_either prompt (str ''search'') (str ''find'') of
        Inl e \<Rightarrow> Inl e
      | Inr True \<Rightarrow>
          template_literal printNumber gemini_search_pre prompt gemini_search_post
      | Inr False \<Rightarrow>
         (case includes_either prompt (str ''generate'') (str ''create'') of
            Inl e \<Rightarrow> Inl e
          | Inr True \<Rightarrow>
              template_literal printNumber gemini_generate_pre prompt gemini_generate_post
          | Inr False \<Rightarrow>
             (case includes_either prompt (str ''explain'') (str ''analyze'') of
                Inl e \<Rightarrow> Inl e
              | Inr True \<Rightarrow>
                  template_literal printNumber gemini_explain_pre prompt gemini_explain_post
              | Inr False \<Rightarrow>
                  template_literal printNumber gemini_generic_pre prompt
                    gemini_generic_post)))"

subsection \<open>The WebSocket message handlers\<close>

text \<open>
  What a handler does: it logs, and it sends replies. \<open>Send r\<close> is
  \<^verbatim>\<open>ws.send(JSON.stringify(r))\<close> for the response object \<open>r\<close>.
\<close>

datatype ws_effect =
    ConsoleLog jsvalue
  | ConsoleError js_error
  | Send response

text \<open>\<^verbatim>\<open>message.params?.prompt || ''\<close>; reading \<^verbatim>\<open>message.params\<close> throws on \<^verbatim>\<open>null\<close>.\<close>

definition prompt_of :: "jsvalue \<Rightarrow> js_error + jsvalue" where
  "prompt_of message =
     (case get_prop message (str ''params'') of
        Inl e \<Rightarrow> Inl e
      | Inr params \<Rightarrow> Inr (js_or (get_prop_opt params (str ''prompt'')) (JString [])))"

text \<open>
  The body of the \<^verbatim>\<open>try\<close> block after the message is parsed and logged: the response
  it sends, or the exception it throws.
\<close>

definition claude_respond :: "(jsnumber \<Rightarrow> jsstring) \<Rightarrow> jsvalue \<Rightarrow> js_error + response" where
  "claude_respond printNumber message =
     (case get_prop message (str ''method'') of
        Inl e \<Rightarrow> Inl e
      | Inr method \<Rightarrow>
          if method = JString (str ''claude/complete'') then
            (case prompt_of message of
               Inl e \<Rightarrow> Inl e
             | Inr prompt \<Rightarrow>
                (case processClaudeRequest printNumber prompt of
                   Inl e \<Rightarrow> Inl e
                 | Inr response \<Rightarrow>
                    (case get_prop message (str ''id'') of
                       Inl e \<Rightarrow> Inl e
                     | Inr message_id \<Rightarrow>
                         Inr (createMCPResponse message_id
                                (JObject
                                   [(str ''completion'', JString response),
                                    (str ''tokens_used'',
                                       JNumber (Finite (of_nat (length response)))),
                                    (str ''model'', JString (str ''claude-code''))])
                                None))))
          else
            (case get_prop message (str ''id'') of
               Inl e \<Rightarrow> Inl e
             | Inr message_id \<Rightarrow>
                 Inr (createMCPResponse message_id JNull (Some method_not_found))))"

definition gemini_respond :: "(jsnumber \<Rightarrow> jsstring) \<Rightarrow> jsvalue \<Rightarrow> js_error + response" where
  "gemini_respond printNumber message =
     (case get_prop message (str ''method'') of
        Inl e \<Rightarrow> Inl e
      | Inr method \<Rightarrow>
          if method = JString (str ''gemini/complete'') then
            (case prompt_of message of
               Inl e \<Rightarrow> Inl e
             | Inr prompt \<Rightarrow>
                (case processGeminiRequest printNumber prompt of
                   Inl e \<Rightarrow> Inl e
                 | Inr response \<Rightarrow>
                    (case get_prop message (str ''id'') of
                       Inl e \<Rightarrow> Inl e
                     | Inr message_id \<Rightarrow>
                         Inr (createMCPResponse message_id
                                (JObject
                                   [(str ''completion'', JString response),
                                    (str ''tokens_used'',
                                       JNumber (Finite (of_nat (length response)))),
                                    (str ''model'', JString (str ''gemini-cli'')),
                                    (str ''search_used'', JBool True)])
                                None))))
          else
            (case get_prop message (str ''id'') of
               Inl e \<Rightarrow> Inl e
             | Inr message_id \<Rightarrow>
                 Inr (createMCPResponse message_id JNull (Some method_not_found))))"

text \<open>The \<^verbatim>\<open>catch\<close> block.\<close>

definition on_catch :: "js_error \<Rightarrow> ws_effect list" where
  "on_catch e = [ConsoleError e, Send (createMCPResponse JNull JNull (Some parse_error))]"

text \<open>
  \<^verbatim>\<open>ws.on('message', (data) => { try { ... } catch (error) { ... } })\<close>.
  \<^verbatim>\<open>JSON.parse\<close> is the parameter \<open>parse\<close>: \<open>None\<close> where it throws a SyntaxError, and
  otherwise the value parsed, which is never \<^verbatim>\<open>undefined\<close>.
\<close>

definition claude_on_message ::
  "('d \<Rightarrow> jsvalue option) \<Rightarrow> (jsnumber \<Rightarrow> jsstring) \<Rightarrow> 'd \<Rightarrow> ws_effect list" where
  "claude_on_message parse printNumber data =
     (case parse data of
        None \<Rightarrow> on_catch SyntaxError
      | Some message \<Rightarrow>
          ConsoleLog message #
          (case claude_respond printNumber message of
             Inl e \<Rightarrow> on_catch e
           | Inr mcpResponse \<Rightarrow> [Send mcpResponse]))"

definition gemini_on_message ::
  "('d \<Rightarrow> jsvalue option) \<Rightarrow> (jsnumber \<Rightarrow> jsstring) \<Rightarrow> 'd \<Rightarrow> ws_effect list" where
  "gemini_on_message parse printNumber data =
     (case parse data of
        None \<Rightarrow> on_catch SyntaxError
      | Some message \<Rightarrow>
          ConsoleLog message #
          (case gemini_respond printNumber message of
             Inl e \<Rightarrow> on_catch e
           | Inr mcpResponse \<Rightarrow> [Send mcpResponse]))"

text \<open>The replies among the effects of a handler.\<close>

fun replies :: "ws_effect list \<Rightarrow> response list" where
  "replies [] = []"
| "replies (Send r # es) = r # replies es"
| "replies (e # es) = replies es"

text \<open>\<^verbatim>\<open>message.params?.prompt\<close>, for a message that is not \<^verbatim>\<open>null\<close>.\<close>

definition raw_prompt :: "jsvalue \<Rightarrow> jsvalue" where
  "raw_prompt message = get_prop_opt (get_prop_opt message (str ''params'')) (str ''prompt'')"

text \<open>
  The prompts \<^verbatim>\<open>processClaudeRequest\<close> processes without an exception: a falsy value
  (absent, \<^verbatim>\<open>null\<close>, \<^verbatim>\<open>false\<close>, \<^verbatim>\<open>0\<close>, the empty string), a string, and an array that
  holds the string \<^verbatim>\<open>refactor\<close> or \<^verbatim>\<open>test\<close> or that the template literal can print.
\<close>

definition claude_prompt_ok :: "jsvalue \<Rightarrow> bool" where
  "claude_prompt_ok message =
     (case raw_prompt message of
        JString s \<Rightarrow> True
      | JArray xs \<Rightarrow>
          JString (str ''refactor'') \<in> set xs \<or> JString (str ''test'') \<in> set xs \<or>
          printable (JArray xs)
      | v \<Rightarrow> \<not> truthy v)"

text \<open>
  The prompts \<^verbatim>\<open>processGeminiRequest\<close> processes without an exception: every branch
  for a truthy prompt prints the prompt.
\<close>

definition gemini_prompt_ok :: "jsvalue \<Rightarrow> bool" where
  "gemini_prompt_ok message =
     (case raw_prompt message of
        JString s \<Rightarrow> True
      | JArray xs \<Rightarrow> printable (JArray xs)
      | v \<Rightarrow> \<not> truthy v)"

section \<open>The terminal grid (TerminalGrid.tsx)\<close>

text \<open>
  \<^verbatim>\<open>interface Terminal { id: number; title: string; active: boolean; order: number; }\<close>
  The ids and order values the component ever stores are integers.
\<close>

record terminal =
  id' :: int
  title :: jsstring
  active :: bool
  order :: int

text \<open>The argument of \<^verbatim>\<open>useState<Terminal[]>\<close> and of \<^verbatim>\<open>useState(1)\<close>.\<close>

definition initial_terminals :: "terminal list" where
  "initial_terminals =
     [\<lparr>id' = 1, title = str ''Terminal 1'', active = True, order = 0\<rparr>,
      \<lparr>id' = 2, title = str ''Terminal 2'', active = False, order = 1\<rparr>,
      \<lparr>id' = 3, title = str ''Terminal 3'', active = False, order = 2\<rparr>]"

record grid =
  terminals :: "terminal list"
  activeTerminal :: int

definition initial_grid :: grid where
  "initial_grid = \<lparr>terminals = initial_terminals, activeTerminal = 1\<rparr>"

text \<open>
  \<^verbatim>\<open>setActiveTerminal(terminalId);
  setTerminals(prev => prev.map(t => ({ ...t, active: t.id === terminalId })));\<close>
\<close>

definition handleTerminalActivate :: "int \<Rightarrow> grid \<Rightarrow> grid" where
  "handleTerminalActivate terminalId g =
     \<lparr>terminals = map (\<lambda>t. t\<lparr>active := (id' t = terminalId)\<rparr>) (terminals g),
      activeTerminal = terminalId\<rparr>"

text \<open>
  \<^verbatim>\<open>setTerminals(prev => prev.map(t => t.id === terminalId ? { ...t, title: newTitle } : t));\<close>
\<close>

definition handleTerminalRename :: "int \<Rightarrow> jsstring \<Rightarrow> grid \<Rightarrow> grid" where
  "handleTerminalRename terminalId newTitle g =
     g\<lparr>terminals := map (\<lambda>t. if id' t = terminalId then t\<lparr>title := newTitle\<rparr> else t) (terminals g)\<rparr>"

text \<open>
  \<^verbatim>\<open>Array.prototype.splice(start, deleteCount, ...items)\<close> for an integer \<open>start\<close>: a
  negative start counts from the end, and the start is clamped to \<open>0 .. length\<close>.
\<close>

definition splice_start :: "'a list \<Rightarrow> int \<Rightarrow> nat" where
  "splice_start xs start =
     (if start < 0 then nat (max (int (length xs) + start) 0)
      else min (nat start) (length xs))"

definition splice_remove1 :: "'a list \<Rightarrow> int \<Rightarrow> 'a list" where
  "splice_remove1 xs start =
     (let k = splice_start xs start in take k xs @ drop (Suc k) xs)"

definition splice_insert :: "'a list \<Rightarrow> int \<Rightarrow> 'a \<Rightarrow> 'a list" where
  "splice_insert xs start x =
     (let k = splice_start xs start in take k xs @ [x] @ drop k xs)"

text \<open>\<^verbatim>\<open>newTerminals.map((terminal, index) => ({ ...terminal, order: index }))\<close>\<close>

fun set_order_from :: "nat \<Rightarrow> terminal list \<Rightarrow> terminal list" where
  "set_order_from i [] = []"
| "set_order_from i (t # ts) = t\<lparr>order := int i\<rparr> # set_order_from (Suc i) ts"

text \<open>
  \<^verbatim>\<open>const draggedTerminal = terminals[dragIndex];
  const newTerminals = [...terminals];
  newTerminals.splice(dragIndex, 1);
  newTerminals.splice(hoverIndex, 0, draggedTerminal);
  const updatedTerminals = newTerminals.map((terminal, index) => ({ ...terminal, order: index }));
  setTerminals(updatedTerminals);\<close>
  When \<open>dragIndex\<close> is no index of the array, \<^verbatim>\<open>terminals[dragIndex]\<close> is
  \<^verbatim>\<open>undefined\<close> and the new array holds the object \<^verbatim>\<open>{ order: index }\<close> in its place,
  which is no \<open>Terminal\<close>: the model returns \<open>None\<close> there.
\<close>

definition handleTerminalReorder :: "int \<Rightarrow> int \<Rightarrow> grid \<Rightarrow> grid option" where
  "handleTerminalReorder dragIndex hoverIndex g =
     (if 0 \<le> dragIndex \<and> dragIndex < int (length (terminals g)) then
        (let draggedTerminal = terminals g ! nat dragIndex;
             removed = splice_remove1 (terminals g) dragIndex;
             newTerminals = splice_insert removed hoverIndex draggedTerminal
         in Some (g\<lparr>terminals := set_order_from 0 newTerminals\<rparr>))
      else None)"

text \<open>
  The states the component reaches. The handlers are only called from the rendered
  controls: \<^verbatim>\<open>onTerminalSelect(terminal.id)\<close> and \<^verbatim>\<open>handleTerminalActivate(terminal.id)\<close>
  for a terminal of the list, \<^verbatim>\<open>onTerminalRename(editingId, editTitle.trim())\<close>, and
  \<^verbatim>\<open>onReorder(item.index, index)\<close> for two positions of the rendered list.
\<close>

inductive reachable :: "grid \<Rightarrow> bool" where
  init: "reachable initial_grid"
| activate: "reachable g \<Longrightarrow> t \<in> set (terminals g) \<Longrightarrow> reachable (handleTerminalActivate (id' t) g)"
| rename: "reachable g \<Longrightarrow> reachable (handleTerminalRename terminalId newTitle g)"
| reorder: "reachable g \<Longrightarrow> handleTerminalReorder dragIndex hoverIndex g = Some g'
     \<Longrightarrow> 0 \<le> hoverIndex \<Longrightarrow> hoverIndex < int (length (terminals g)) \<Longrightarrow> reachable g'"

section \<open>The command records of a session\<close>

text \<open>
  Modelled from the spec: the \<open>CommandRecord\<close> of the specification, its status and the
  operations that change it (routing a line, \<open>emit\<close> of the Output Multiplexer, closing
  the session) are not in the source files, whose terminal keeps a list of the command
  texts only. The definitions follow sections 3, 4.3, 4.5 and 5 of the specification.
\<close>

datatype status = Pending | Completed | Failed | Cancelled

datatype classification = Local | AgentKind agent | Control

record CommandRecord =
  seq :: nat
  input :: jsstring
  classified :: classification
  chunks :: "jsstring list"
  status :: status

record session =
  transcript :: "CommandRecord list"
  closed :: bool

text \<open>
  Modelled from the spec: "Every classified line first creates a CommandRecord in pending
  state", with the next sequence number of the session; a closed session is unknown.
\<close>

definition create_record :: "jsstring \<Rightarrow> classification \<Rightarrow> session \<Rightarrow> session" where
  "create_record text cls s =
     (if closed s then s
      else s\<lparr>transcript := transcript s @
             [\<lparr>seq = Suc (length (transcript s)), input = text, classified = cls,
               chunks = [], status = Pending\<rparr>]\<rparr>)"

text \<open>
  Modelled from the spec: \<open>emit(sessionId, seq, chunk, isFinal)\<close> "always appends chunk to
  the CommandRecord's output list"; "isFinal transitions the record to completed/failed
  as indicated", and there is "no transition out of a terminal state". \<open>final\<close> is
  \<open>None\<close> for a chunk that is not final, \<open>Some True\<close> for completed and \<open>Some False\<close>
  for failed. Output for a closed session is discarded.
\<close>

definition emit_record :: "nat \<Rightarrow> jsstring \<Rightarrow> bool option \<Rightarrow> CommandRecord \<Rightarrow> CommandRecord" where
  "emit_record sq chunk final r =
     (if seq r = sq then
        r\<lparr>chunks := chunks r @ [chunk],
          status := (if status r = Pending then
                       (case final of None \<Rightarrow> Pending
                        | Some True \<Rightarrow> Completed
                        | Some False \<Rightarrow> Failed)
                     else status r)\<rparr>
      else r)"

definition emit :: "nat \<Rightarrow> jsstring \<Rightarrow> bool option \<Rightarrow> session \<Rightarrow> session" where
  "emit sq chunk final s =
     (if closed s then s else s\<lparr>transcript := map (emit_record sq chunk final) (transcript s)\<rparr>)"

text \<open>
  Modelled from the spec: "explicit session close cancels all pending records for that
  session (marks them cancelled if no terminal chunk yet arrived)".
\<close>

definition close_session :: "session \<Rightarrow> session" where
  "close_session s =
     \<lparr>transcript = map (\<lambda>r. if status r = Pending then r\<lparr>status := Cancelled\<rparr> else r)
                      (transcript s),
      closed = True\<rparr>"

text \<open>
  Modelled from the spec: the events of a session that touch its records: a line is
  routed, a chunk is emitted for the record of a sequence number, the session is closed.
\<close>

datatype session_event =
    Route jsstring classification
  | Emit nat jsstring "bool option"
  | Close

fun session_step :: "session_event \<Rightarrow> session \<Rightarrow> session" where
  "session_step (Route text cls) s = create_record text cls s"
| "session_step (Emit sq chunk final) s = emit sq chunk final s"
| "session_step Close s = close_session s"

text \<open>
  Modelled from the spec: the statuses of the records of a session, by position in the
  transcript.
\<close>

definition statuses :: "session \<Rightarrow> status list" where
  "statuses s = map status (transcript s)"


section \<open>Properties of the terminal panel\<close>

lemma trim_blank: "(\<forall>c \<in> set s. isWhiteSpace c) \<Longrightarrow> trim s = []"
proof -
  assume "\<forall>c \<in> set s. isWhiteSpace c"
  then have "dropWhile isWhiteSpace s = []"
    by (simp add: dropWhile_eq_Nil_conv)
  then show ?thesis by (simp add: trim_def del: dropWhile_eq_Nil_conv)
qed

lemma trim_blank_iff: "trim s = [] \<longleftrightarrow> (\<forall>c \<in> set s. isWhiteSpace c)"
proof
  assume t: "trim s = []"
  then have "dropWhile isWhiteSpace (rev (dropWhile isWhiteSpace s)) = []"
    by (simp add: trim_def)
  then have "\<forall>c \<in> set (dropWhile isWhiteSpace s). isWhiteSpace c"
    by (simp add: dropWhile_eq_Nil_conv)
  then have "dropWhile isWhiteSpace s = []"
    by (metis dropWhile_eq_Nil_conv dropWhile_idem)
  then show "\<forall>c \<in> set s. isWhiteSpace c"
    by (simp add: dropWhile_eq_Nil_conv)
qed (rule trim_blank)

text \<open>
  Claim C6. When the line typed so far is empty or holds white space only, the Enter key
  routes nothing: the handler writes the line break and the prompt, \<open>handleCommand\<close> is not
  called, the history setter is not called, and the command history is what it was.
\<close>

theorem blank_line_noop:
  assumes "\<forall>c \<in> set currentLine. isWhiteSpace c"
  shows "onData currentLine [0x0D] = ([], [TermWrite [0x0D, 0x0A], TermWrite prompt_text]) \<and>
         routed (snd (onData currentLine [0x0D])) = [] \<and>
         commandHistory_after reads (snd (onData currentLine [0x0D])) h = h"
  using trim_blank[OF assms] by (simp add: onData_def)

theorem blank_line_noop_witness:
  "list_all isWhiteSpace (str ''  '' @ [0x09]) \<and>
   onData (str ''  '' @ [0x09]) [0x0D] = ([], [TermWrite [0x0D, 0x0A], TermWrite prompt_text]) \<and>
   commandHistory_after (\<lambda>k. []) (snd (onData (str ''  '' @ [0x09]) [0x0D])) [str ''ls''] = [str ''ls'']"
proof -
  have b: "\<forall>c \<in> set (str ''  '' @ [0x09]). isWhiteSpace c"
    by (simp add: str_def isWhiteSpace_def)
  have l: "list_all isWhiteSpace (str ''  '' @ [0x09])"
    using b by (simp only: list_all_iff)
  show ?thesis
    using blank_line_noop[OF b, of "\<lambda>k. []" "[str ''ls'']"] l by simp
qed






lemma keyword_length: "length (keyword k) = 6"
  by (cases k) (simp_all add: keyword_def str_def)

lemma keywords_differ: "startsWith line (str ''claude'') \<Longrightarrow> \<not> startsWith line (str ''gemini'')"
proof
  assume a: "startsWith line (str ''claude'')" and b: "startsWith line (str ''gemini'')"
  have "length (str ''claude'') = length (str ''gemini'')" by (simp add: str_def)
  with a b have "str ''claude'' = str ''gemini''" by (simp add: startsWith_def)
  then show False by (simp add: str_def)
qed

lemma control_not_agent:
  assumes "startsWith line (str ''claude'') \<or> startsWith line (str ''gemini'')"
  shows "line \<noteq> str ''clear'' \<and> line \<noteq> str ''help'' \<and> line \<noteq> str ''status'' \<and>
         line \<noteq> str ''history''"
  using assms by (auto simp: startsWith_def str_def)

lemma branch_agent_iff:
  "handleCommand_branch line = Br_agent k prompt \<longleftrightarrow>
     startsWith line (keyword k) \<and> prompt = trim (drop 6 line)"
proof (cases "startsWith line (str ''claude'')")
  case True
  then show ?thesis
    using control_not_agent[of line] keywords_differ[of line]
    by (cases k) (auto simp: handleCommand_branch_def keyword_def)
next
  case False
  show ?thesis
  proof (cases "startsWith line (str ''gemini'')")
    case True
    then show ?thesis
      using control_not_agent[of line] False
      by (cases k) (auto simp: handleCommand_branch_def keyword_def)
  next
    case g: False
    then show ?thesis
      using False by (cases k) (auto simp: handleCommand_branch_def keyword_def)
  qed
qed

lemma trim_no_leading: "dropWhile isWhiteSpace (trim raw) = trim raw"
proof (cases "trim raw")
  case Nil
  then show ?thesis by simp
next
  case (Cons c cs)
  define t where "t = dropWhile isWhiteSpace raw"
  have tr: "trim raw = rev (dropWhile isWhiteSpace (rev t))"
    by (simp add: trim_def t_def)
  have "t \<noteq> []" using Cons tr by auto
  then have h: "\<not> isWhiteSpace (hd t)"
    unfolding t_def by (rule hd_dropWhile)
  obtain u us where t: "t = u # us" using \<open>t \<noteq> []\<close> by (cases t) auto
  have "rev t = rev us @ [u]" by (simp add: t)
  moreover have "\<not> isWhiteSpace u" using h t by simp
  ultimately have "\<exists>zs. dropWhile isWhiteSpace (rev t) = zs @ [u]"
    by (induction "rev us") (auto simp: dropWhile_append)
  then obtain zs where "dropWhile isWhiteSpace (rev t) = zs @ [u]" by blast
  then have "trim raw = u # rev zs" using tr by simp
  then show ?thesis using \<open>\<not> isWhiteSpace u\<close> by simp
qed

lemma takeWhile_startsWith: "takeWhile P xs = ys \<Longrightarrow> startsWith xs ys"
proof -
  assume "takeWhile P xs = ys"
  then have "xs = ys @ dropWhile P xs" by (metis takeWhile_dropWhile_id)
  then have "take (length ys) xs = ys" by (metis append_eq_conv_conj)
  then show ?thesis by (simp add: startsWith_def)
qed

text \<open>
  Claim C1, as the code has it. A line is handled as a command for agent \<open>k\<close> exactly when
  it begins with the six characters of the keyword of \<open>k\<close>, and the request argument is
  then the rest of the line after these six characters, trimmed (it may be empty). A routed
  line (a trimmed one) whose first token is the keyword is such a line; a line that does
  not begin with a keyword is never handled as an agent command. The argument is what
  the agent branch of \<open>handleCommand\<close> works on.
\<close>

theorem agent_by_prefix:
  "(handleCommand_branch line = Br_agent k prompt \<longleftrightarrow>
      startsWith line (keyword k) \<and> prompt = trim (drop (length (keyword k)) line)) \<and>
   (first_token (trim raw) = keyword k \<longrightarrow>
      handleCommand_branch (trim raw) = Br_agent k (trim (drop (length (keyword k)) (trim raw)))) \<and>
   (handleCommand_branch line = Br_agent k prompt \<longrightarrow>
      handleCommand env line =
        (case k of Claude \<Rightarrow> claude_branch prompt | Gemini \<Rightarrow> gemini_branch prompt))"
proof (intro conjI)
  show "handleCommand_branch line = Br_agent k prompt \<longrightarrow>
      handleCommand env line =
        (case k of Claude \<Rightarrow> claude_branch prompt | Gemini \<Rightarrow> gemini_branch prompt)"
    by (cases k) (simp_all add: handleCommand_def)
  show "handleCommand_branch line = Br_agent k prompt \<longleftrightarrow>
      startsWith line (keyword k) \<and> prompt = trim (drop (length (keyword k)) line)"
    by (simp only: branch_agent_iff keyword_length)
  show "first_token (trim raw) = keyword k \<longrightarrow>
      handleCommand_branch (trim raw) = Br_agent k (trim (drop (length (keyword k)) (trim raw)))"
  proof
    assume "first_token (trim raw) = keyword k"
    then have "takeWhile (\<lambda>c. \<not> isWhiteSpace c) (trim raw) = keyword k"
      by (simp add: first_token_def trim_no_leading)
    then have "startsWith (trim raw) (keyword k)" by (rule takeWhile_startsWith)
    then show "handleCommand_branch (trim raw) = Br_agent k (trim (drop (length (keyword k)) (trim raw)))"
      by (simp only: branch_agent_iff keyword_length)
  qed
qed

theorem agent_by_prefix_witness:
  "first_token (trim (str '' gemini  explain  maps '')) = keyword Gemini \<and>
   handleCommand_branch (trim (str '' gemini  explain  maps '')) = Br_agent Gemini (str ''explain  maps'') \<and>
   startsWith (str ''gemini  explain  maps'') (keyword Gemini)"
proof -
  have t: "trim (str '' gemini  explain  maps '') = str ''gemini  explain  maps''"
    by (simp add: trim_def str_def isWhiteSpace_def)
  have f: "first_token (str ''gemini  explain  maps'') = keyword Gemini"
    by (simp add: first_token_def keyword_def str_def isWhiteSpace_def)
  have d: "trim (drop (length (keyword Gemini)) (str ''gemini  explain  maps'')) = str ''explain  maps''"
    by (simp add: trim_def keyword_def str_def isWhiteSpace_def)
  show ?thesis
    using agent_by_prefix[of "str ''gemini  explain  maps''" Gemini "str ''explain  maps''"
        "str '' gemini  explain  maps ''" "\<lparr>isConnected = True, commandHistory = []\<rparr>"]
    by (auto simp add: t f d)
qed

text \<open>
  The line \<open>claudette\<close> is handled as a command for Claude with the argument \<open>tte\<close>,
  though its first token is not a keyword.
\<close>

theorem agent_by_token_counterexample:
  "handleCommand_branch (str ''claudette'') = Br_agent Claude (str ''tte'') \<and>
   first_token (str ''claudette'') = str ''claudette'' \<and>
   first_token (str ''claudette'') \<noteq> keyword Claude \<and>
   first_token (str ''claudette'') \<noteq> keyword Gemini"
  by (simp add: handleCommand_branch_def startsWith_def trim_def first_token_def keyword_def
      str_def isWhiteSpace_def)

lemma history_numbers_eq: "history_numbers h = [1..<Suc (length h)]"
proof -
  have "history_numbers h = map (Suc \<circ> fst) (enumerate 0 h)"
    by (simp add: history_numbers_def forEach_indexed_def case_prod_beta comp_def)
  also have "\<dots> = map Suc (map fst (enumerate 0 h))"
    by (simp only: map_map)
  also have "map fst (enumerate 0 h) = [0..<length h]"
    by (simp add: map_fst_enumerate)
  also have "map Suc [0..<length h] = [1..<Suc (length h)]"
    by (simp add: map_Suc_upt)
  finally show ?thesis .
qed

lemma routed_append: "routed (as @ bs) = routed as @ routed bs"
  by (induction as rule: routed.induct) auto

lemma commandHistory_after_append:
  "commandHistory_after reads (as @ bs) h =
     commandHistory_after reads bs (commandHistory_after reads as h)"
  by (induction reads as h rule: commandHistory_after.induct) auto

text \<open>Every call of the handler comes with one call of the history setter.\<close>

lemma onData_records:
  "\<exists>new. commandHistory_after reads (snd (onData currentLine data)) h = h @ new \<and>
     length new = length (routed (snd (onData currentLine data)))"
  by (auto simp: onData_def commandHistory_updater_def)

lemma onData_all_records:
  "\<exists>new. commandHistory_after reads (snd (onData_all currentLine datas)) h = h @ new \<and>
     length new = length (routed (snd (onData_all currentLine datas)))"
proof (induction datas arbitrary: currentLine h)
  case Nil
  show ?case by simp
next
  case (Cons data rest)
  obtain cl' acts where s: "onData currentLine data = (cl', acts)"
    by (cases "onData currentLine data")
  obtain cl'' acts' where r: "onData_all cl' rest = (cl'', acts')"
    by (cases "onData_all cl' rest")
  obtain n1 where n1: "commandHistory_after reads acts h = h @ n1" "length n1 = length (routed acts)"
    using onData_records[of reads currentLine data h] s by auto
  obtain n2 where n2: "commandHistory_after reads acts' (h @ n1) = (h @ n1) @ n2"
      "length n2 = length (routed acts')"
    using Cons[of cl' "h @ n1"] r by auto
  have "commandHistory_after reads (acts @ acts') h = h @ (n1 @ n2)"
    using n1 n2 by (simp add: commandHistory_after_append)
  moreover have "length (n1 @ n2) = length (routed (acts @ acts'))"
    using n1 n2 by (simp add: routed_append)
  ultimately show ?case using s r by (simp del: append_assoc)
qed

lemma history_listing:
  "handleCommand env (str ''history'') =
     [Writeln history_head] @
     (if commandHistory env = [] then [Writeln history_none]
      else map (\<lambda>(n, cmd). Writeln (history_pre @ decimal n @ history_mid @ cmd))
             (zip (history_numbers (commandHistory env)) (commandHistory env))) @
     [Writeln []]"
proof -
  have b: "handleCommand_branch (str ''history'') = Br_history"
    by (simp add: handleCommand_branch_def str_def)
  have z: "forEach_indexed h (\<lambda>cmd index. Writeln (history_line cmd index)) =
        map (\<lambda>(n, cmd). Writeln (history_pre @ decimal n @ history_mid @ cmd))
             (zip (history_numbers h) h)" for h
  proof -
    have "zip (history_numbers h) h = map (\<lambda>(i, x). (Suc i, x)) (enumerate 0 h)"
      unfolding history_numbers_eq enumerate_eq_zip
      by (simp add: map_Suc_upt[symmetric] zip_map1 del: upt_Suc)
    then show ?thesis
      by (simp add: forEach_indexed_def history_line_def case_prod_beta)
  qed
  show ?thesis
    by (simp add: handleCommand_def b z)
qed

text \<open>
  Claim C3. After any sequence of input events, the records of the command history of a
  session are numbered \<open>1, 2, ..., n\<close> without a gap, in the order the commands were
  routed: every routed command adds one record at the end of the history, the records
  before stay in place, and the listing of \<open>history\<close> numbers the records by position,
  from 1. This holds whenever React runs the updaters.
\<close>

theorem history_consecutive:
  "history_numbers (commandHistory_after reads (snd (onData_all currentLine datas)) []) =
     [1..<Suc (length (routed (snd (onData_all currentLine datas))))] \<and>
   (\<exists>new. commandHistory_after reads (snd (onData_all currentLine datas)) h = h @ new \<and>
      length new = length (routed (snd (onData_all currentLine datas))) \<and>
      history_numbers (h @ new) = [1..<Suc (length h + length new)]) \<and>
   handleCommand env (str ''history'') =
     [Writeln history_head] @
     (if commandHistory env = [] then [Writeln history_none]
      else map (\<lambda>(n, cmd). Writeln (history_pre @ decimal n @ history_mid @ cmd))
             (zip (history_numbers (commandHistory env)) (commandHistory env))) @
     [Writeln []]"
proof -
  let ?acts = "snd (onData_all currentLine datas)"
  obtain n0 where n0: "commandHistory_after reads ?acts [] = [] @ n0"
      "length n0 = length (routed ?acts)"
    using onData_all_records[of reads currentLine datas "[]"] by blast
  obtain new where new: "commandHistory_after reads ?acts h = h @ new"
      "length new = length (routed ?acts)"
    using onData_all_records[of reads currentLine datas h] by blast
  have a: "history_numbers (commandHistory_after reads ?acts []) = [1..<Suc (length (routed ?acts))]"
    using n0 by (simp add: history_numbers_eq)
  have b: "history_numbers (h @ new) = [1..<Suc (length h + length new)]"
    by (simp add: history_numbers_eq)
  show ?thesis
    using a new b history_listing[of env] by blast
qed

theorem history_consecutive_witness:
  "routed (snd (onData_all [] [str ''l'', str ''s'', [0x0D], str '' '', [0x0D], str ''help'', [0x0D]])) =
     [str ''ls'', str ''help''] \<and>
   history_numbers (commandHistory_after (\<lambda>k. [])
      (snd (onData_all [] [str ''l'', str ''s'', [0x0D], str '' '', [0x0D], str ''help'', [0x0D]])) []) =
     [1, 2]"
proof -
  have r: "routed (snd (onData_all [] [str ''l'', str ''s'', [0x0D], str '' '', [0x0D], str ''help'', [0x0D]])) =
     [str ''ls'', str ''help'']"
    by (simp add: onData_def str_def trim_def isWhiteSpace_def)
  have u: "[1..<Suc (length [str ''ls'', str ''help''])] = [1, 2]"
    by (simp add: upt_rec)
  have "history_numbers (commandHistory_after (\<lambda>k. [])
      (snd (onData_all [] [str ''l'', str ''s'', [0x0D], str '' '', [0x0D], str ''help'', [0x0D]])) []) =
     [1..<Suc (length (routed
        (snd (onData_all [] [str ''l'', str ''s'', [0x0D], str '' '', [0x0D], str ''help'', [0x0D]]))))]"
    using history_consecutive[of "\<lambda>k. []" "[]"
        "[str ''l'', str ''s'', [0x0D], str '' '', [0x0D], str ''help'', [0x0D]]" "[]"
        "\<lparr>isConnected = True, commandHistory = []\<rparr>"]
    by (rule conjunct1)
  then have "history_numbers (commandHistory_after (\<lambda>k. [])
      (snd (onData_all [] [str ''l'', str ''s'', [0x0D], str '' '', [0x0D], str ''help'', [0x0D]])) []) =
     [1, 2]"
    by (simp only: r u)
  with r show ?thesis by (rule conjI)
qed

section \<open>Properties of the agent endpoints\<close>

text \<open>A value with the \<open>includes\<close> method: a string or an array.\<close>

lemma js_includes_string_or_array:
  "(\<exists>s. p = JString s) \<or> (\<exists>xs. p = JArray xs) \<Longrightarrow> \<exists>b. js_includes p x = Inr b"
  by auto

lemma includes_either_string_or_array:
  "(\<exists>s. p = JString s) \<or> (\<exists>xs. p = JArray xs) \<Longrightarrow> \<exists>b. includes_either p x y = Inr b"
  by (auto simp: includes_either_def split: sum.splits bool.splits)

lemma printable_prints:
  "printable v \<Longrightarrow> \<exists>s. js_toString printNumber v = Inr s"
  "list_all printable xs \<Longrightarrow> \<exists>s. array_join printNumber xs = Inr s"
proof (induction printNumber v and printNumber xs rule: js_toString_array_join.induct)
  case (9 printNumber x xs)
  have x: "printable x" and xs: "list_all printable xs" using 9(3) by simp_all
  obtain a where a: "(if x = JUndefined \<or> x = JNull then Inr [] else js_toString printNumber x) = Inr a"
    using 9(1) x by (cases "x = JUndefined \<or> x = JNull") auto
  show ?case
  proof (cases "xs = []")
    case True
    then show ?thesis using a by simp
  next
    case False
    obtain b where "array_join printNumber xs = Inr b"
      using 9(2)[OF a False xs] by blast
    then show ?thesis using a False by simp
  qed
qed (auto split: option.splits)

lemma template_literal_prints:
  "printable v \<Longrightarrow> \<exists>s. template_literal printNumber pre v post = Inr s"
  using printable_prints(1)[of v printNumber] by (auto simp: template_literal_def)


lemma process_claude_string: "\<exists>response. processClaudeRequest printNumber (JString s) = Inr response"
  by (auto simp: processClaudeRequest_def template_literal_def split: bool.splits sum.splits)

lemma process_gemini_string: "\<exists>response. processGeminiRequest printNumber (JString s) = Inr response"
  by (auto simp: processGeminiRequest_def includes_either_def template_literal_def
      split: bool.splits sum.splits)

lemma process_claude_array:
  assumes "JString (str ''refactor'') \<in> set xs \<or> JString (str ''test'') \<in> set xs \<or>
           printable (JArray xs)"
  shows "\<exists>response. processClaudeRequest printNumber (JArray xs) = Inr response"
proof (cases "JString (str ''refactor'') \<in> set xs \<or> JString (str ''test'') \<in> set xs")
  case True
  then show ?thesis by (auto simp: processClaudeRequest_def split: bool.splits sum.splits)
next
  case False
  then have "printable (JArray xs)" using assms by blast
  then obtain s where "template_literal printNumber claude_generic_pre (JArray xs) claude_generic_post = Inr s"
    using template_literal_prints by blast
  then show ?thesis using False by (auto simp: processClaudeRequest_def split: bool.splits)
qed

lemma process_gemini_array:
  assumes "printable (JArray xs)"
  shows "\<exists>response. processGeminiRequest printNumber (JArray xs) = Inr response"
proof -
  have t: "\<exists>s. template_literal printNumber pre (JArray xs) post = Inr s" for pre post
    using assms by (rule template_literal_prints)
  obtain b where b: "includes_either (JArray xs) (str ''search'') (str ''find'') = Inr b"
    using includes_either_string_or_array by blast
  obtain c where c: "includes_either (JArray xs) (str ''generate'') (str ''create'') = Inr c"
    using includes_either_string_or_array by blast
  obtain d where d: "includes_either (JArray xs) (str ''explain'') (str ''analyze'') = Inr d"
    using includes_either_string_or_array by blast
  show ?thesis
    using t by (cases b; cases c; cases d) (simp_all add: processGeminiRequest_def b c d)
qed

lemma prompt_of_object:
  "prompt_of (JObject fs) = Inr (js_or (raw_prompt (JObject fs)) (JString []))"
  by (simp add: prompt_of_def raw_prompt_def get_prop_opt_def)

lemma claude_prompt_processed:
  assumes "claude_prompt_ok (JObject fs)"
  shows "\<exists>p response. prompt_of (JObject fs) = Inr p \<and>
           processClaudeRequest printNumber p = Inr response"
proof (cases "raw_prompt (JObject fs)")
  case (JString s)
  then have "js_or (raw_prompt (JObject fs)) (JString []) = JString s \<or>
             js_or (raw_prompt (JObject fs)) (JString []) = JString []"
    by (simp add: js_or_def)
  then show ?thesis using process_claude_string prompt_of_object by metis
next
  case (JArray xs)
  then have "js_or (raw_prompt (JObject fs)) (JString []) = JArray xs"
    by (simp add: js_or_def)
  moreover have "\<exists>response. processClaudeRequest printNumber (JArray xs) = Inr response"
    using assms JArray by (intro process_claude_array) (simp add: claude_prompt_ok_def)
  ultimately show ?thesis using prompt_of_object by metis
qed (use assms process_claude_string[of printNumber "[]"] in
     \<open>auto simp: claude_prompt_ok_def prompt_of_object js_or_def\<close>)

lemma gemini_prompt_processed:
  assumes "gemini_prompt_ok (JObject fs)"
  shows "\<exists>p response. prompt_of (JObject fs) = Inr p \<and>
           processGeminiRequest printNumber p = Inr response"
proof (cases "raw_prompt (JObject fs)")
  case (JString s)
  then have "js_or (raw_prompt (JObject fs)) (JString []) = JString s \<or>
             js_or (raw_prompt (JObject fs)) (JString []) = JString []"
    by (simp add: js_or_def)
  then show ?thesis using process_gemini_string prompt_of_object by metis
next
  case (JArray xs)
  then have "js_or (raw_prompt (JObject fs)) (JString []) = JArray xs"
    by (simp add: js_or_def)
  moreover have "\<exists>response. processGeminiRequest printNumber (JArray xs) = Inr response"
    using assms JArray by (intro process_gemini_array) (simp add: gemini_prompt_ok_def)
  ultimately show ?thesis using prompt_of_object by metis
qed (use assms process_gemini_string[of printNumber "[]"] in
     \<open>auto simp: gemini_prompt_ok_def prompt_of_object js_or_def\<close>)

lemma get_prop_object: "\<exists>v. get_prop (JObject fs) name = Inr v"
  by simp

text \<open>A value one property of which can be read is neither \<open>null\<close> nor \<open>undefined\<close>.\<close>

lemma get_prop_readable: "get_prop message name = Inr v \<Longrightarrow> \<exists>w. get_prop message name' = Inr w"
  by (cases message) auto

lemma method_read_object:
  assumes "get_prop message name = Inr (JString m)"
  shows "\<exists>fs. message = JObject fs"
  using assms by (cases message) auto

lemma claude_respond_completion:
  assumes m: "get_prop message (str ''method'') = Inr (JString (str ''claude/complete''))"
    and ok: "claude_prompt_ok message"
  shows "\<exists>message_id response.
     get_prop message (str ''id'') = Inr message_id \<and>
     claude_respond printNumber message =
       Inr \<lparr>jsonrpc = str ''2.0'', resp_id = message_id,
            result = JObject [(str ''completion'', JString response),
                              (str ''tokens_used'', JNumber (Finite (of_nat (length response)))),
                              (str ''model'', JString (str ''claude-code''))],
            error = JNull\<rparr>"
proof -
  obtain fs where fs: "message = JObject fs"
    using m method_read_object by blast
  obtain p response where p: "prompt_of message = Inr p"
    and r: "processClaudeRequest printNumber p = Inr response"
    using claude_prompt_processed[OF ok[unfolded fs]] unfolding fs by blast
  obtain message_id where i: "get_prop message (str ''id'') = Inr message_id"
    using get_prop_object unfolding fs by blast
  show ?thesis
    unfolding claude_respond_def m using p r i by (simp add: createMCPResponse_def)
qed

lemma gemini_respond_completion:
  assumes m: "get_prop message (str ''method'') = Inr (JString (str ''gemini/complete''))"
    and ok: "gemini_prompt_ok message"
  shows "\<exists>message_id response.
     get_prop message (str ''id'') = Inr message_id \<and>
     gemini_respond printNumber message =
       Inr \<lparr>jsonrpc = str ''2.0'', resp_id = message_id,
            result = JObject [(str ''completion'', JString response),
                              (str ''tokens_used'', JNumber (Finite (of_nat (length response)))),
                              (str ''model'', JString (str ''gemini-cli'')),
                              (str ''search_used'', JBool True)],
            error = JNull\<rparr>"
proof -
  obtain fs where fs: "message = JObject fs"
    using m method_read_object by blast
  obtain p response where p: "prompt_of message = Inr p"
    and r: "processGeminiRequest printNumber p = Inr response"
    using gemini_prompt_processed[OF ok[unfolded fs]] unfolding fs by blast
  obtain message_id where i: "get_prop message (str ''id'') = Inr message_id"
    using get_prop_object unfolding fs by blast
  show ?thesis
    unfolding gemini_respond_def m using p r i by (simp add: createMCPResponse_def)
qed

lemma claude_respond_other:
  assumes "get_prop message (str ''method'') = Inr method"
    and "method \<noteq> JString (str ''claude/complete'')"
  shows "\<exists>message_id.
     get_prop message (str ''id'') = Inr message_id \<and>
     claude_respond printNumber message =
       Inr \<lparr>jsonrpc = str ''2.0'', resp_id = message_id, result = JNull, error = method_not_found\<rparr>"
proof -
  obtain message_id where i: "get_prop message (str ''id'') = Inr message_id"
    using assms(1) get_prop_readable by blast
  show ?thesis
    unfolding claude_respond_def assms(1) using assms(2) i by (simp add: createMCPResponse_def)
qed

lemma gemini_respond_other:
  assumes "get_prop message (str ''method'') = Inr method"
    and "method \<noteq> JString (str ''gemini/complete'')"
  shows "\<exists>message_id.
     get_prop message (str ''id'') = Inr message_id \<and>
     gemini_respond printNumber message =
       Inr \<lparr>jsonrpc = str ''2.0'', resp_id = message_id, result = JNull, error = method_not_found\<rparr>"
proof -
  obtain message_id where i: "get_prop message (str ''id'') = Inr message_id"
    using assms(1) get_prop_readable by blast
  show ?thesis
    unfolding gemini_respond_def assms(1) using assms(2) i by (simp add: createMCPResponse_def)
qed

lemma claude_replies: "parse data = Some message \<Longrightarrow> claude_respond printNumber message = Inr r \<Longrightarrow>
   replies (claude_on_message parse printNumber data) = [r]"
  by (simp add: claude_on_message_def)

lemma gemini_replies: "parse data = Some message \<Longrightarrow> gemini_respond printNumber message = Inr r \<Longrightarrow>
   replies (gemini_on_message parse printNumber data) = [r]"
  by (simp add: gemini_on_message_def)

text \<open>What is written for a value without infinite numbers reads back as the value.\<close>

lemma json_of_is_json: "is_json v \<Longrightarrow> json_of v = v"
proof (induction v rule: json_of.induct)
  case (1 n)
  then show ?case by (cases n) auto
next
  case (2 xs)
  have "\<And>x. x \<in> set xs \<Longrightarrow> is_json x" using 2(2) by (simp add: list_all_iff)
  then have "\<And>x. x \<in> set xs \<Longrightarrow> (if x = JUndefined then JNull else json_of x) = x"
    using 2(1) by force
  then show ?case by (simp add: map_idI)
next
  case (3 fs)
  have j: "\<And>k v. (k, v) \<in> set fs \<Longrightarrow> is_json v" using 3(2) by (auto simp: list_all_iff)
  then have f: "filter (\<lambda>(k, v). v \<noteq> JUndefined) fs = fs"
    by (force simp: filter_id_conv)
  have "\<And>x. x \<in> set fs \<Longrightarrow> (case x of (k, v) \<Rightarrow> (k, json_of v)) = x"
    using 3(1) j f by force
  then show ?case by (simp add: f map_idI)
qed simp_all

lemma emitted_fields:
  "get_prop_opt (emitted r) (str ''id'') =
     (if resp_id r = JUndefined then JUndefined else json_of (resp_id r))"
  "get_prop_opt (emitted r) (str ''result'') =
     (if result r = JUndefined then JUndefined else json_of (result r))"
  "get_prop_opt (emitted r) (str ''error'') =
     (if error r = JUndefined then JUndefined else json_of (error r))"
  by (simp_all add: emitted_def response_object_def get_prop_opt_def str_def)

lemma emitted_id:
  "v = JUndefined \<or> is_json v \<Longrightarrow> resp_id r = v \<Longrightarrow> get_prop_opt (emitted r) (str ''id'') = v"
  by (auto simp: emitted_fields json_of_is_json)


text \<open>
  Claim C2, as the code has it. Take an inbound message that names the completion method of
  the endpoint, whose prompt the simulated agent processes without an exception (a
  string, a falsy value, an array the template literal can print, or for Claude an array
  holding \<open>refactor\<close> or \<open>test\<close>) and whose id, if it has one, holds no infinite number.
  The endpoint sends one reply; the id of the response object is the id of the message
  as \<^verbatim>\<open>JSON.parse\<close> read it, and so is the id a client reads from the text sent (none
  when the message has none).
\<close>

theorem id_echoed:
  assumes "parse data = Some message"
    and "get_prop message (str ''id'') = Inr message_id"
    and "message_id = JUndefined \<or> is_json message_id"
  shows
   "(get_prop message (str ''method'') = Inr (JString (str ''claude/complete'')) \<and>
     claude_prompt_ok message \<longrightarrow>
       (\<exists>r. replies (claude_on_message parse printNumber data) = [r] \<and>
            resp_id r = message_id \<and>
            get_prop_opt (emitted r) (str ''id'') = message_id)) \<and>
    (get_prop message (str ''method'') = Inr (JString (str ''gemini/complete'')) \<and>
     gemini_prompt_ok message \<longrightarrow>
       (\<exists>r. replies (gemini_on_message parse printNumber data) = [r] \<and>
            resp_id r = message_id \<and>
            get_prop_opt (emitted r) (str ''id'') = message_id))"
proof (intro conjI impI)
  assume "get_prop message (str ''method'') = Inr (JString (str ''claude/complete'')) \<and>
     claude_prompt_ok message"
  then have m: "get_prop message (str ''method'') = Inr (JString (str ''claude/complete''))"
    and ok: "claude_prompt_ok message" by simp_all
  from claude_respond_completion[OF m ok, of printNumber]
  obtain r where r: "claude_respond printNumber message = Inr r"
    and i: "resp_id r = message_id" using assms(2) by force
  have "replies (claude_on_message parse printNumber data) = [r]"
    using assms(1) r by (rule claude_replies)
  moreover have "get_prop_opt (emitted r) (str ''id'') = message_id"
    using assms(3) i by (rule emitted_id)
  ultimately show "\<exists>r. replies (claude_on_message parse printNumber data) = [r] \<and>
            resp_id r = message_id \<and> get_prop_opt (emitted r) (str ''id'') = message_id"
    using i by blast
next
  assume "get_prop message (str ''method'') = Inr (JString (str ''gemini/complete'')) \<and>
     gemini_prompt_ok message"
  then have m: "get_prop message (str ''method'') = Inr (JString (str ''gemini/complete''))"
    and ok: "gemini_prompt_ok message" by simp_all
  from gemini_respond_completion[OF m ok, of printNumber]
  obtain r where r: "gemini_respond printNumber message = Inr r"
    and i: "resp_id r = message_id" using assms(2) by force
  have "replies (gemini_on_message parse printNumber data) = [r]"
    using assms(1) r by (rule gemini_replies)
  moreover have "get_prop_opt (emitted r) (str ''id'') = message_id"
    using assms(3) i by (rule emitted_id)
  ultimately show "\<exists>r. replies (gemini_on_message parse printNumber data) = [r] \<and>
            resp_id r = message_id \<and> get_prop_opt (emitted r) (str ''id'') = message_id"
    using i by blast
qed

theorem id_echoed_witness:
  "claude_prompt_ok (JObject [(str ''id'', JNumber (Finite 1)),
                       (str ''method'', JString (str ''claude/complete'')),
                       (str ''params'', JObject [(str ''prompt'', JString (str ''refactor foo''))])]) \<and>
   is_json (JNumber (Finite 1)) \<and>
   (\<exists>r. replies (claude_on_message Some (\<lambda>n. [])
          (JObject [(str ''id'', JNumber (Finite 1)),
                    (str ''method'', JString (str ''claude/complete'')),
                    (str ''params'', JObject [(str ''prompt'', JString (str ''refactor foo''))])])) = [r] \<and>
        get_prop_opt (emitted r) (str ''id'') = JNumber (Finite 1))"
proof -
  let ?m = "JObject [(str ''id'', JNumber (Finite 1)),
                    (str ''method'', JString (str ''claude/complete'')),
                    (str ''params'', JObject [(str ''prompt'', JString (str ''refactor foo''))])]"
  have ok: "claude_prompt_ok ?m"
    by (simp add: claude_prompt_ok_def raw_prompt_def get_prop_opt_def str_def)
  have me: "get_prop ?m (str ''method'') = Inr (JString (str ''claude/complete''))"
    by (simp add: str_def)
  have i: "get_prop ?m (str ''id'') = Inr (JNumber (Finite 1))"
    by (simp add: str_def)
  have j: "is_json (JNumber (Finite 1))" by simp
  show ?thesis
    using id_echoed[of Some ?m ?m "JNumber (Finite 1)" "\<lambda>n. []"] ok me i j by auto
qed

text \<open>
  Three messages with the method \<^verbatim>\<open>claude/complete\<close>. For the prompt \<^verbatim>\<open>5\<close>,
  \<^verbatim>\<open>prompt.includes\<close> is no function; for the prompt \<^verbatim>\<open>[{"toString": 1}]\<close> the template
  literal cannot print the object: both exceptions land in the \<^verbatim>\<open>catch\<close> block, and the
  reply has the id \<open>null\<close>, not the ids 1 and 2 of the messages. For the id \<^verbatim>\<open>1e999\<close>,
  read as Infinity, the response object has that id, and the text sent has the id
  \<open>null\<close>.
\<close>

theorem id_echoed_counterexample:
  "get_prop (JObject [(str ''id'', JNumber (Finite 1)),
                      (str ''method'', JString (str ''claude/complete'')),
                      (str ''params'', JObject [(str ''prompt'', JNumber (Finite 5))])])
     (str ''method'') = Inr (JString (str ''claude/complete'')) \<and>
   get_prop (JObject [(str ''id'', JNumber (Finite 1)),
                      (str ''method'', JString (str ''claude/complete'')),
                      (str ''params'', JObject [(str ''prompt'', JNumber (Finite 5))])])
     (str ''id'') = Inr (JNumber (Finite 1)) \<and>
   replies (claude_on_message Some (\<lambda>n. [])
     (JObject [(str ''id'', JNumber (Finite 1)),
               (str ''method'', JString (str ''claude/complete'')),
               (str ''params'', JObject [(str ''prompt'', JNumber (Finite 5))])])) =
     [\<lparr>jsonrpc = str ''2.0'', resp_id = JNull, result = JNull, error = parse_error\<rparr>] \<and>
   get_prop_opt
     (emitted \<lparr>jsonrpc = str ''2.0'', resp_id = JNull, result = JNull, error = parse_error\<rparr>)
     (str ''id'') = JNull \<and>
   replies (claude_on_message Some (\<lambda>n. [])
     (JObject [(str ''id'', JNumber (Finite 2)),
               (str ''method'', JString (str ''claude/complete'')),
               (str ''params'',
                  JObject [(str ''prompt'',
                     JArray [JObject [(str ''toString'', JNumber (Finite 1))]])])])) =
     [\<lparr>jsonrpc = str ''2.0'', resp_id = JNull, result = JNull, error = parse_error\<rparr>] \<and>
   map resp_id (replies (claude_on_message Some (\<lambda>n. [])
     (JObject [(str ''id'', JNumber PosInfinity),
               (str ''method'', JString (str ''claude/complete''))]))) = [JNumber PosInfinity] \<and>
   map (\<lambda>r. get_prop_opt (emitted r) (str ''id'')) (replies (claude_on_message Some (\<lambda>n. [])
     (JObject [(str ''id'', JNumber PosInfinity),
               (str ''method'', JString (str ''claude/complete''))]))) = [JNull]"
  by (simp add: claude_on_message_def claude_respond_def str_def prompt_of_def get_prop_opt_def
      js_or_def processClaudeRequest_def on_catch_def createMCPResponse_def template_literal_def
      emitted_def response_object_def parse_error_def)

text \<open>
  Claim C4, as the code has it. Take an inbound message that parses to a value other than
  \<open>null\<close> (so that its method can be read). For every method but the completion method
  of the endpoint (and when there is none) the endpoint sends exactly one reply, with the
  result \<open>null\<close> and the error \<^verbatim>\<open>{code: -32601, message: 'Method not found'}\<close>,
  whatever the prompt. For the completion method, when the simulated agent processes the
  prompt without an exception, it sends exactly one reply, with a result that starts with
  a completion and the error \<open>null\<close>. No such reply has both a result and an error, and a
  client reads the same result and error from the text sent.
\<close>

theorem one_reply:
  assumes "parse data = Some message"
    and "get_prop message (str ''method'') = Inr method"
  shows
   "(method \<noteq> JString (str ''claude/complete'') \<longrightarrow>
       (\<exists>r. replies (claude_on_message parse printNumber data) = [r] \<and>
            result r = JNull \<and> error r = method_not_found \<and>
            get_prop_opt (emitted r) (str ''result'') = JNull \<and>
            get_prop_opt (emitted r) (str ''error'') = method_not_found)) \<and>
    (method = JString (str ''claude/complete'') \<and> claude_prompt_ok message \<longrightarrow>
       (\<exists>r completion rest. replies (claude_on_message parse printNumber data) = [r] \<and>
            result r = JObject ((str ''completion'', JString completion) # rest) \<and>
            error r = JNull \<and>
            get_prop_opt (emitted r) (str ''result'') = result r \<and>
            get_prop_opt (emitted r) (str ''error'') = JNull)) \<and>
    (method \<noteq> JString (str ''gemini/complete'') \<longrightarrow>
       (\<exists>r. replies (gemini_on_message parse printNumber data) = [r] \<and>
            result r = JNull \<and> error r = method_not_found \<and>
            get_prop_opt (emitted r) (str ''result'') = JNull \<and>
            get_prop_opt (emitted r) (str ''error'') = method_not_found)) \<and>
    (method = JString (str ''gemini/complete'') \<and> gemini_prompt_ok message \<longrightarrow>
       (\<exists>r completion rest. replies (gemini_on_message parse printNumber data) = [r] \<and>
            result r = JObject ((str ''completion'', JString completion) # rest) \<and>
            error r = JNull \<and>
            get_prop_opt (emitted r) (str ''result'') = result r \<and>
            get_prop_opt (emitted r) (str ''error'') = JNull))"
proof (intro conjI impI)
  assume ne: "method \<noteq> JString (str ''claude/complete'')"
  from claude_respond_other[OF assms(2) ne, of printNumber]
  obtain message_id where r: "claude_respond printNumber message =
       Inr \<lparr>jsonrpc = str ''2.0'', resp_id = message_id, result = JNull, error = method_not_found\<rparr>"
    by blast
  show "\<exists>r. replies (claude_on_message parse printNumber data) = [r] \<and>
            result r = JNull \<and> error r = method_not_found \<and>
            get_prop_opt (emitted r) (str ''result'') = JNull \<and>
            get_prop_opt (emitted r) (str ''error'') = method_not_found"
    using claude_replies[of parse data message printNumber, OF assms(1) r]
    by (simp add: emitted_fields method_not_found_def)
next
  assume "method = JString (str ''claude/complete'') \<and> claude_prompt_ok message"
  then have m: "get_prop message (str ''method'') = Inr (JString (str ''claude/complete''))"
    and ok: "claude_prompt_ok message" using assms(2) by simp_all
  from claude_respond_completion[OF m ok, of printNumber]
  obtain message_id response where r: "claude_respond printNumber message =
       Inr \<lparr>jsonrpc = str ''2.0'', resp_id = message_id,
            result = JObject [(str ''completion'', JString response),
                              (str ''tokens_used'', JNumber (Finite (of_nat (length response)))),
                              (str ''model'', JString (str ''claude-code''))],
            error = JNull\<rparr>"
    by blast
  show "\<exists>r completion rest. replies (claude_on_message parse printNumber data) = [r] \<and>
            result r = JObject ((str ''completion'', JString completion) # rest) \<and>
            error r = JNull \<and>
            get_prop_opt (emitted r) (str ''result'') = result r \<and>
            get_prop_opt (emitted r) (str ''error'') = JNull"
    using claude_replies[of parse data message printNumber, OF assms(1) r]
    by (simp add: emitted_fields)
next
  assume ne: "method \<noteq> JString (str ''gemini/complete'')"
  from gemini_respond_other[OF assms(2) ne, of printNumber]
  obtain message_id where r: "gemini_respond printNumber message =
       Inr \<lparr>jsonrpc = str ''2.0'', resp_id = message_id, result = JNull, error = method_not_found\<rparr>"
    by blast
  show "\<exists>r. replies (gemini_on_message parse printNumber data) = [r] \<and>
            result r = JNull \<and> error r = method_not_found \<and>
            get_prop_opt (emitted r) (str ''result'') = JNull \<and>
            get_prop_opt (emitted r) (str ''error'') = method_not_found"
    using gemini_replies[of parse data message printNumber, OF assms(1) r]
    by (simp add: emitted_fields method_not_found_def)
next
  assume "method = JString (str ''gemini/complete'') \<and> gemini_prompt_ok message"
  then have m: "get_prop message (str ''method'') = Inr (JString (str ''gemini/complete''))"
    and ok: "gemini_prompt_ok message" using assms(2) by simp_all
  from gemini_respond_completion[OF m ok, of printNumber]
  obtain message_id response where r: "gemini_respond printNumber message =
       Inr \<lparr>jsonrpc = str ''2.0'', resp_id = message_id,
            result = JObject [(str ''completion'', JString response),
                              (str ''tokens_used'', JNumber (Finite (of_nat (length response)))),
                              (str ''model'', JString (str ''gemini-cli'')),
                              (str ''search_used'', JBool True)],
            error = JNull\<rparr>"
    by blast
  show "\<exists>r completion rest. replies (gemini_on_message parse printNumber data) = [r] \<and>
            result r = JObject ((str ''completion'', JString completion) # rest) \<and>
            error r = JNull \<and>
            get_prop_opt (emitted r) (str ''result'') = result r \<and>
            get_prop_opt (emitted r) (str ''error'') = JNull"
    using gemini_replies[of parse data message printNumber, OF assms(1) r]
    by (simp add: emitted_fields)
qed

theorem one_reply_witness:
  "gemini_prompt_ok (JObject [(str ''id'', JString (str ''a1'')), (str ''method'', JString (str ''gemini/complete''))]) \<and>
   (\<exists>r. replies (claude_on_message Some (\<lambda>n. [])
       (JObject [(str ''id'', JString (str ''a1'')), (str ''method'', JString (str ''gemini/complete''))])) = [r] \<and>
      result r = JNull \<and> error r = method_not_found) \<and>
   (\<exists>r completion rest. replies (gemini_on_message Some (\<lambda>n. [])
       (JObject [(str ''id'', JString (str ''a1'')), (str ''method'', JString (str ''gemini/complete''))])) = [r] \<and>
      result r = JObject ((str ''completion'', JString completion) # rest) \<and>
      error r = JNull)"
proof -
  let ?m = "JObject [(str ''id'', JString (str ''a1'')), (str ''method'', JString (str ''gemini/complete''))]"
  have ok: "gemini_prompt_ok ?m"
    by (simp add: gemini_prompt_ok_def raw_prompt_def get_prop_opt_def str_def)
  have me: "get_prop ?m (str ''method'') = Inr (JString (str ''gemini/complete''))"
    by (simp add: str_def)
  have ne: "JString (str ''gemini/complete'') \<noteq> JString (str ''claude/complete'')"
    by (simp add: str_def)
  show ?thesis
    using one_reply[of Some ?m ?m "JString (str ''gemini/complete'')" "\<lambda>n. []", OF refl me] ok ne
    by blast
qed

text \<open>
  Two messages with the method \<^verbatim>\<open>gemini/complete\<close>, with the prompts \<^verbatim>\<open>true\<close> and
  \<^verbatim>\<open>["find", {"toString": null}]\<close>: the reply is the parse error, which is neither a
  result nor the error of an unknown method.
\<close>

theorem one_reply_counterexample:
  "replies (gemini_on_message Some (\<lambda>n. [])
     (JObject [(str ''id'', JNumber (Finite 7)),
               (str ''method'', JString (str ''gemini/complete'')),
               (str ''params'', JObject [(str ''prompt'', JBool True)])])) =
     [\<lparr>jsonrpc = str ''2.0'', resp_id = JNull, result = JNull, error = parse_error\<rparr>] \<and>
   replies (gemini_on_message Some (\<lambda>n. [])
     (JObject [(str ''id'', JNumber (Finite 8)),
               (str ''method'', JString (str ''gemini/complete'')),
               (str ''params'',
                  JObject [(str ''prompt'',
                     JArray [JString (str ''find''),
                             JObject [(str ''toString'', JNull)]])])])) =
     [\<lparr>jsonrpc = str ''2.0'', resp_id = JNull, result = JNull, error = parse_error\<rparr>] \<and>
   parse_error \<noteq> method_not_found \<and> parse_error \<noteq> JNull"
  by (simp add: gemini_on_message_def gemini_respond_def str_def prompt_of_def get_prop_opt_def
      js_or_def processGeminiRequest_def includes_either_def on_catch_def createMCPResponse_def
      template_literal_def parse_error_def method_not_found_def)

lemma always_one_reply:
  "\<exists>r. replies (claude_on_message parse printNumber data) = [r]"
  "\<exists>r. replies (gemini_on_message parse printNumber data) = [r]"
  by (auto simp: claude_on_message_def gemini_on_message_def on_catch_def
      split: option.splits sum.splits)

text \<open>
  Claim C5. When \<^verbatim>\<open>JSON.parse\<close> throws on the data of a message, the handler catches
  the exception: it logs it and sends the single reply with the id \<open>null\<close>, the result
  \<open>null\<close> and the error \<^verbatim>\<open>{code: -32700, message: 'Parse error'}\<close>. The handler lets no
  exception escape: whatever the data, it ends having sent exactly one reply.
\<close>

theorem parse_failure_reply:
  assumes "parse data = None"
  shows "claude_on_message parse printNumber data =
           [ConsoleError SyntaxError,
            Send \<lparr>jsonrpc = str ''2.0'', resp_id = JNull, result = JNull, error = parse_error\<rparr>] \<and>
         gemini_on_message parse printNumber data =
           [ConsoleError SyntaxError,
            Send \<lparr>jsonrpc = str ''2.0'', resp_id = JNull, result = JNull, error = parse_error\<rparr>] \<and>
         parse_error = JObject [(str ''code'', JNumber (Finite (- 32700))),
                                (str ''message'', JString (str ''Parse error''))] \<and>
         (\<exists>r. replies (claude_on_message parse' printNumber' data') = [r]) \<and>
         (\<exists>r. replies (gemini_on_message parse' printNumber' data') = [r])"
  using assms always_one_reply[of parse' printNumber' data']
  by (simp add: claude_on_message_def gemini_on_message_def on_catch_def createMCPResponse_def
      parse_error_def)

theorem parse_failure_reply_witness:
  "replies (claude_on_message (\<lambda>d. if d = ''{}'' then Some (JObject []) else None) (\<lambda>n. []) ''{oops'') =
     [\<lparr>jsonrpc = str ''2.0'', resp_id = JNull, result = JNull, error = parse_error\<rparr>] \<and>
   replies (gemini_on_message (\<lambda>d. if d = ''{}'' then Some (JObject []) else None) (\<lambda>n. []) ''{oops'') =
     [\<lparr>jsonrpc = str ''2.0'', resp_id = JNull, result = JNull, error = parse_error\<rparr>]"
proof -
  show ?thesis
    using parse_failure_reply[of "\<lambda>d. if d = ''{}'' then Some (JObject []) else None" "''{oops''"
        "\<lambda>n. []" Some "\<lambda>n. []" JNull]
    by simp
qed

section \<open>Properties of the terminal grid\<close>


lemma set_order_from_length [simp]: "length (set_order_from i ts) = length ts"
  by (induction ts arbitrary: i) auto

lemma set_order_from_order: "map order (set_order_from i ts) = map int [i..<i + length ts]"
proof (induction ts arbitrary: i)
  case Nil
  then show ?case by simp
next
  case (Cons t ts)
  have "[i..<i + length (t # ts)] = i # [Suc i..<Suc i + length ts]"
    by (simp add: upt_rec)
  with Cons show ?case by simp
qed

lemma set_order_from_id: "map id' (set_order_from i ts) = map id' ts"
  by (induction ts arbitrary: i) auto

lemma set_order_from_title: "map title (set_order_from i ts) = map title ts"
  by (induction ts arbitrary: i) auto

lemma set_order_from_active: "map active (set_order_from i ts) = map active ts"
  by (induction ts arbitrary: i) auto

lemma set_order_from_nth:
  "k < length ts \<Longrightarrow> set_order_from i ts ! k = (ts ! k)\<lparr>order := int (i + k)\<rparr>"
proof (induction ts arbitrary: i k)
  case Nil
  then show ?case by simp
next
  case (Cons t ts)
  then show ?case by (cases k) auto
qed

lemma splice_start_nat: "0 \<le> start \<Longrightarrow> splice_start xs start = min (nat start) (length xs)"
  by (simp add: splice_start_def)

lemma splice_remove1_mset:
  assumes "0 \<le> d" "d < int (length xs)"
  shows "mset (splice_remove1 xs d) + {#xs ! nat d#} = mset xs"
proof -
  have k: "nat d < length xs" using assms by linarith
  have "xs = take (nat d) xs @ xs ! nat d # drop (Suc (nat d)) xs"
    using k by (rule id_take_nth_drop)
  then have "mset xs = mset (take (nat d) xs @ xs ! nat d # drop (Suc (nat d)) xs)"
    by (rule arg_cong)
  then have "mset xs = mset (take (nat d) xs) + {#xs ! nat d#} + mset (drop (Suc (nat d)) xs)"
    by simp
  moreover have "splice_remove1 xs d = take (nat d) xs @ drop (Suc (nat d)) xs"
    using assms k by (simp add: splice_remove1_def splice_start_nat Let_def)
  ultimately show ?thesis by simp
qed

lemma splice_remove1_length:
  assumes "0 \<le> d" "d < int (length xs)"
  shows "length (splice_remove1 xs d) = length xs - 1"
  using assms by (auto simp: splice_remove1_def splice_start_nat Let_def)

lemma splice_insert_mset: "mset (splice_insert xs h x) = mset xs + {#x#}"
proof -
  have "mset (take k xs) + mset (drop k xs) = mset xs" for k
    by (simp only: mset_append[symmetric] append_take_drop_id)
  then show ?thesis by (simp add: splice_insert_def Let_def add.commute)
qed

lemma splice_insert_nth:
  assumes "0 \<le> h" "nat h \<le> length xs"
  shows "splice_insert xs h x ! nat h = x"
  using assms by (simp add: splice_insert_def splice_start_nat nth_append Let_def)

lemma splice_insert_length [simp]: "length (splice_insert xs h x) = Suc (length xs)"
  by (simp add: splice_insert_def Let_def)

lemma reorder_Some:
  assumes "0 \<le> d" "d < int (length (terminals g))"
  shows "handleTerminalReorder d h g =
    Some (g\<lparr>terminals := set_order_from 0 (splice_insert (splice_remove1 (terminals g) d) h (terminals g ! nat d))\<rparr>)"
  using assms by (simp add: handleTerminalReorder_def Let_def)

lemma reorder_mset:
  assumes "0 \<le> d" "d < int (length (terminals g))"
  shows "mset (splice_insert (splice_remove1 (terminals g) d) h (terminals g ! nat d)) = mset (terminals g)"
  using splice_remove1_mset[OF assms] by (simp add: splice_insert_mset)

lemma set_order_from_proj:
  "map (\<lambda>t. (id' t, title t, active t)) (set_order_from i ts) = map (\<lambda>t. (id' t, title t, active t)) ts"
  by (induction ts arbitrary: i) auto

text \<open>
  Claim C10. For every pair of positions \<open>dragIndex\<close>, \<open>hoverIndex\<close> of the terminal
  list, \<open>handleTerminalReorder\<close> gives a list that is a permutation of the previous one
  in which every terminal keeps its id, title and active flag, of the same length, whose
  order fields are \<open>0, 1, ..., n - 1\<close> in the order of the list, and in which the dragged
  terminal stands at position \<open>hoverIndex\<close>.
\<close>

theorem reorder_permutation:
  assumes "0 \<le> dragIndex" "dragIndex < int (length (terminals g))"
    and "0 \<le> hoverIndex" "hoverIndex < int (length (terminals g))"
  shows "\<exists>g'. handleTerminalReorder dragIndex hoverIndex g = Some g' \<and>
     mset (map (\<lambda>t. (id' t, title t, active t)) (terminals g')) =
       mset (map (\<lambda>t. (id' t, title t, active t)) (terminals g)) \<and>
     length (terminals g') = length (terminals g) \<and>
     map order (terminals g') = map int [0..<length (terminals g)] \<and>
     (terminals g' ! nat hoverIndex)\<lparr>order := 0\<rparr> = (terminals g ! nat dragIndex)\<lparr>order := 0\<rparr>"
proof -
  define new where
    "new = splice_insert (splice_remove1 (terminals g) dragIndex) hoverIndex (terminals g ! nat dragIndex)"
  define g' where "g' = g\<lparr>terminals := set_order_from 0 new\<rparr>"
  have ts: "terminals g' = set_order_from 0 new"
    by (simp add: g'_def)
  have some: "handleTerminalReorder dragIndex hoverIndex g = Some g'"
    unfolding g'_def new_def using assms(1,2) by (rule reorder_Some)
  have ms: "mset new = mset (terminals g)"
    unfolding new_def using assms(1,2) by (rule reorder_mset)
  have len: "length new = length (terminals g)"
    using arg_cong[OF ms, of size] by simp
  have proj: "mset (map (\<lambda>t. (id' t, title t, active t)) (terminals g')) =
       mset (map (\<lambda>t. (id' t, title t, active t)) (terminals g))"
    using ms by (simp add: ts set_order_from_proj)
  have ord: "map order (terminals g') = map int [0..<length (terminals g)]"
    using set_order_from_order[of 0 new] by (simp add: ts len)
  have hl: "nat hoverIndex \<le> length (splice_remove1 (terminals g) dragIndex)"
    using assms by (simp add: splice_remove1_length)
  have "new ! nat hoverIndex = terminals g ! nat dragIndex"
    unfolding new_def using assms(3) hl by (rule splice_insert_nth)
  moreover have "nat hoverIndex < length new" using len assms by linarith
  ultimately have pos: "(terminals g' ! nat hoverIndex)\<lparr>order := 0\<rparr> = (terminals g ! nat dragIndex)\<lparr>order := 0\<rparr>"
    by (simp add: ts set_order_from_nth)
  show ?thesis using some proj len ord pos by (simp add: ts)
qed


lemma activate_active:
  "map active (terminals (handleTerminalActivate terminalId g)) =
     map (\<lambda>t. id' t = terminalId) (terminals g)"
  by (simp add: handleTerminalActivate_def)

lemma activate_ids:
  "map id' (terminals (handleTerminalActivate terminalId g)) = map id' (terminals g)"
  by (simp add: handleTerminalActivate_def)

lemma rename_active:
  "map active (terminals (handleTerminalRename terminalId newTitle g)) = map active (terminals g)"
  by (simp add: handleTerminalRename_def)

lemma rename_ids:
  "map id' (terminals (handleTerminalRename terminalId newTitle g)) = map id' (terminals g)"
  by (simp add: handleTerminalRename_def)

lemma filter_active_map: "length (filter active ts) = length (filter (\<lambda>b. b) (map active ts))"
  by (induction ts) auto

lemma one_with_id:
  "distinct (map id' ts) \<Longrightarrow> t \<in> set ts \<Longrightarrow> length (filter (\<lambda>b. b) (map (\<lambda>u. id' u = id' t) ts)) = 1"
proof (induction ts)
  case Nil
  then show ?case by simp
next
  case (Cons u ts)
  show ?case
  proof (cases "id' u = id' t")
    case True
    then have "id' t \<notin> id' ` set ts" using Cons.prems(1) by simp
    then have "filter (\<lambda>b. b) (map (\<lambda>u. id' u = id' t) ts) = []"
      by (auto simp: filter_empty_conv image_iff)
    with True show ?thesis by simp
  next
    case False
    then have "t \<in> set ts" using Cons.prems(2) by auto
    with Cons False show ?thesis by simp
  qed
qed

lemma reorder_flags:
  assumes "handleTerminalReorder d h g = Some g'"
  shows "mset (map (\<lambda>t. (id' t, active t)) (terminals g')) =
         mset (map (\<lambda>t. (id' t, active t)) (terminals g))"
proof -
  have b: "0 \<le> d" "d < int (length (terminals g))"
    using assms by (auto simp: handleTerminalReorder_def split: if_splits)
  have pr: "map (\<lambda>t. (id' t, active t)) (set_order_from i ts) = map (\<lambda>t. (id' t, active t)) ts" for i ts
    by (induction ts arbitrary: i) auto
  have "terminals g' = set_order_from 0 (splice_insert (splice_remove1 (terminals g) d) h (terminals g ! nat d))"
    using assms reorder_Some[OF b, of h] by auto
  then show ?thesis using reorder_mset[OF b, of h] by (simp add: pr)
qed

lemma flags_invariant:
  assumes "mset (map (\<lambda>t. (id' t, active t)) ts') = mset (map (\<lambda>t. (id' t, active t)) ts)"
  shows "distinct (map id' ts') = distinct (map id' ts)"
    and "length (filter active ts') = length (filter active ts)"
proof -
  have "image_mset fst (mset (map (\<lambda>t. (id' t, active t)) ts')) =
        image_mset fst (mset (map (\<lambda>t. (id' t, active t)) ts))"
    using assms by simp
  then have "mset (map id' ts') = mset (map id' ts)"
    by (simp add: image_mset.compositionality comp_def)
  then show "distinct (map id' ts') = distinct (map id' ts)"
    by (rule mset_eq_imp_distinct_iff)
  have "image_mset snd (mset (map (\<lambda>t. (id' t, active t)) ts')) =
        image_mset snd (mset (map (\<lambda>t. (id' t, active t)) ts))"
    using assms by simp
  then have "mset (map active ts') = mset (map active ts)"
    by (simp add: image_mset.compositionality comp_def)
  then have "mset (filter (\<lambda>b. b) (map active ts')) = mset (filter (\<lambda>b. b) (map active ts))"
    by (simp only: mset_filter)
  then have "length (filter (\<lambda>b. b) (map active ts')) = length (filter (\<lambda>b. b) (map active ts))"
    by (rule mset_eq_length)
  then show "length (filter active ts') = length (filter active ts)"
    by (simp only: filter_active_map)
qed

lemma reachable_invariant:
  "reachable g \<Longrightarrow> distinct (map id' (terminals g)) \<and> length (filter active (terminals g)) = 1"
proof (induction rule: reachable.induct)
  case init
  show ?case by (simp add: initial_grid_def initial_terminals_def)
next
  case (activate g t)
  then show ?case
    using one_with_id[of "terminals g" t]
    by (simp add: filter_active_map activate_active activate_ids)
next
  case (rename g terminalId newTitle)
  then show ?case by (simp add: filter_active_map rename_active rename_ids)
next
  case (reorder g dragIndex hoverIndex g')
  then show ?case using flags_invariant[OF reorder_flags[OF reorder.hyps(2)]] by simp
qed

text \<open>
  Claim C9. In every reachable state of the terminal grid exactly one terminal is active.
  The initial state marks terminal 1 active and the two others inactive;
  \<open>handleTerminalActivate\<close> makes a terminal active exactly when its id is the one
  given; \<open>handleTerminalRename\<close> and \<open>handleTerminalReorder\<close> keep the active flag of
  every terminal.
\<close>

theorem exactly_one_active:
  "(reachable g \<longrightarrow> length (filter active (terminals g)) = 1) \<and>
   map (\<lambda>t. (id' t, active t)) (terminals initial_grid) = [(1, True), (2, False), (3, False)] \<and>
   (\<forall>terminalId g0. map active (terminals (handleTerminalActivate terminalId g0)) =
      map (\<lambda>t. id' t = terminalId) (terminals g0)) \<and>
   (\<forall>terminalId newTitle g0.
      map (\<lambda>t. (id' t, active t)) (terminals (handleTerminalRename terminalId newTitle g0)) =
      map (\<lambda>t. (id' t, active t)) (terminals g0)) \<and>
   (\<forall>dragIndex hoverIndex g0 g'. handleTerminalReorder dragIndex hoverIndex g0 = Some g' \<longrightarrow>
      mset (map (\<lambda>t. (id' t, active t)) (terminals g')) =
      mset (map (\<lambda>t. (id' t, active t)) (terminals g0)))"
proof -
  have a: "reachable g \<longrightarrow> length (filter active (terminals g)) = 1"
    using reachable_invariant by blast
  have b: "map (\<lambda>t. (id' t, active t)) (terminals initial_grid) = [(1, True), (2, False), (3, False)]"
    by (simp add: initial_grid_def initial_terminals_def)
  have c: "map (\<lambda>t. (id' t, active t)) (terminals (handleTerminalRename terminalId newTitle g0)) =
      map (\<lambda>t. (id' t, active t)) (terminals g0)" for terminalId newTitle g0
    by (simp add: handleTerminalRename_def)
  show ?thesis using a b c activate_active reorder_flags by blast
qed

theorem exactly_one_active_witness:
  "reachable (handleTerminalActivate 2 initial_grid) \<and>
   length (filter active (terminals (handleTerminalActivate 2 initial_grid))) = 1 \<and>
   (\<exists>g'. handleTerminalReorder 0 2 initial_grid = Some g' \<and>
     mset (map (\<lambda>t. (id' t, active t)) (terminals g')) =
     mset (map (\<lambda>t. (id' t, active t)) (terminals initial_grid)))"
proof -
  have "\<lparr>id' = 2, title = str ''Terminal 2'', active = False, order = 1\<rparr> \<in> set (terminals initial_grid)"
    by (simp add: initial_grid_def initial_terminals_def)
  from reachable.activate[OF reachable.init this]
  have r: "reachable (handleTerminalActivate 2 initial_grid)" by simp
  have "handleTerminalReorder 0 2 initial_grid \<noteq> None"
    by (simp add: handleTerminalReorder_def initial_grid_def initial_terminals_def)
  then obtain g' where g': "handleTerminalReorder 0 2 initial_grid = Some g'" by blast
  show ?thesis
    using r g' exactly_one_active[of "handleTerminalActivate 2 initial_grid"] by blast
qed

theorem reorder_permutation_witness:
  "handleTerminalReorder 0 2 initial_grid =
     Some \<lparr>terminals =
       [\<lparr>id' = 2, title = str ''Terminal 2'', active = False, order = 0\<rparr>,
        \<lparr>id' = 3, title = str ''Terminal 3'', active = False, order = 1\<rparr>,
        \<lparr>id' = 1, title = str ''Terminal 1'', active = True, order = 2\<rparr>],
       activeTerminal = 1\<rparr> \<and>
   (0::int) \<le> 0 \<and> (0::int) < int (length (terminals initial_grid)) \<and>
   (2::int) < int (length (terminals initial_grid)) \<and>
   (\<exists>g'. handleTerminalReorder 0 2 initial_grid = Some g' \<and>
     map order (terminals g') = map int [0..<length (terminals initial_grid)])"
proof -
  have l: "length (terminals initial_grid) = 3"
    by (simp add: initial_grid_def initial_terminals_def)
  have e: "handleTerminalReorder 0 2 initial_grid =
     Some \<lparr>terminals =
       [\<lparr>id' = 2, title = str ''Terminal 2'', active = False, order = 0\<rparr>,
        \<lparr>id' = 3, title = str ''Terminal 3'', active = False, order = 1\<rparr>,
        \<lparr>id' = 1, title = str ''Terminal 1'', active = True, order = 2\<rparr>],
       activeTerminal = 1\<rparr>"
    by (simp add: handleTerminalReorder_def initial_grid_def initial_terminals_def
        splice_remove1_def splice_insert_def splice_start_def Let_def)
  show ?thesis
    using reorder_permutation[of 0 initial_grid 2] e l by simp
qed

section \<open>Properties of the command records\<close>

lemma session_step_length: "length (transcript s) \<le> length (transcript (session_step e s))"
  by (cases e) (simp_all add: create_record_def emit_def close_session_def)

lemma session_step_status:
  assumes "i < length (transcript s)"
  shows "status (transcript (session_step e s) ! i) = status (transcript s ! i) \<or>
         status (transcript s ! i) = Pending \<and>
         ((\<exists>sq chunk. e = Emit sq chunk (Some True)) \<and>
            status (transcript (session_step e s) ! i) = Completed \<or>
          (\<exists>sq chunk. e = Emit sq chunk (Some False)) \<and>
            status (transcript (session_step e s) ! i) = Failed \<or>
          e = Close \<and> status (transcript (session_step e s) ! i) = Cancelled)"
proof (cases e)
  case (Route line cls)
  then show ?thesis using assms by (simp add: create_record_def nth_append)
next
  case (Emit sq chunk final)
  then show ?thesis using assms
    by (cases final) (auto simp: emit_def emit_record_def split: bool.splits)
next
  case Close
  then show ?thesis using assms by (simp add: close_session_def)
qed

lemma session_step_terminal:
  assumes "i < length (transcript s)" "status (transcript s ! i) \<noteq> Pending"
  shows "status (transcript (session_step e s) ! i) = status (transcript s ! i)"
  using session_step_status[OF assms(1), of e] assms(2) by blast

lemma fold_terminal:
  assumes "i < length (transcript s)" "status (transcript s ! i) \<noteq> Pending"
  shows "i < length (transcript (fold session_step es s)) \<and>
         status (transcript (fold session_step es s) ! i) = status (transcript s ! i)"
  using assms
proof (induction es arbitrary: s)
  case Nil
  then show ?case by simp
next
  case (Cons e es)
  have l: "i < length (transcript (session_step e s))"
    using Cons.prems(1) session_step_length[of s e] by linarith
  have t: "status (transcript (session_step e s) ! i) = status (transcript s ! i)"
    using Cons.prems by (rule session_step_terminal)
  from Cons.IH[OF l] t Cons.prems(2) show ?case by simp
qed

text \<open>
  Claim C8. A record that has reached a terminal status (completed, failed or cancelled)
  keeps that status through every later sequence of events of its session. Each step
  either leaves the status of a record as it is, or takes it from pending to completed
  or failed (a final chunk), or from pending to cancelled, the last only when the session
  is closed.
\<close>

theorem terminal_status_final:
  assumes "i < length (statuses s)"
  shows "(statuses s ! i \<noteq> Pending \<longrightarrow>
           i < length (statuses (fold session_step es s)) \<and>
           statuses (fold session_step es s) ! i = statuses s ! i) \<and>
         (statuses (session_step e s) ! i = statuses s ! i \<or>
          statuses s ! i = Pending \<and>
          ((\<exists>sq chunk. e = Emit sq chunk (Some True)) \<and> statuses (session_step e s) ! i = Completed \<or>
           (\<exists>sq chunk. e = Emit sq chunk (Some False)) \<and> statuses (session_step e s) ! i = Failed \<or>
           e = Close \<and> statuses (session_step e s) ! i = Cancelled))"
proof -
  have i: "i < length (transcript s)" using assms by (simp add: statuses_def)
  have i': "i < length (transcript (session_step e s))"
    using i session_step_length[of s e] by linarith
  have a: "statuses s ! i \<noteq> Pending \<longrightarrow>
           i < length (statuses (fold session_step es s)) \<and>
           statuses (fold session_step es s) ! i = statuses s ! i"
  proof
    assume "statuses s ! i \<noteq> Pending"
    then have "status (transcript s ! i) \<noteq> Pending" using i by (simp add: statuses_def)
    from fold_terminal[OF i this, of es] i
    show "i < length (statuses (fold session_step es s)) \<and>
           statuses (fold session_step es s) ! i = statuses s ! i"
      by (simp add: statuses_def)
  qed
  have b: "statuses (session_step e s) ! i = status (transcript (session_step e s) ! i)"
      "statuses s ! i = status (transcript s ! i)"
    using i i' by (simp_all add: statuses_def)
  show ?thesis
    using a session_step_status[OF i, of e] unfolding b by blast
qed

theorem terminal_status_final_witness:
  "statuses (fold session_step [Route (str ''claude fix'') (AgentKind Claude), Emit 1 (str ''done'') (Some True)]
      \<lparr>transcript = [], closed = False\<rparr>) = [Completed] \<and>
   statuses (fold session_step [Emit 1 (str ''late'') (Some False), Close]
     (fold session_step [Route (str ''claude fix'') (AgentKind Claude), Emit 1 (str ''done'') (Some True)]
      \<lparr>transcript = [], closed = False\<rparr>)) ! 0 = Completed"
proof -
  let ?s = "fold session_step [Route (str ''claude fix'') (AgentKind Claude), Emit 1 (str ''done'') (Some True)]
      \<lparr>transcript = [], closed = False\<rparr>"
  have s: "statuses ?s = [Completed]"
    by (simp add: statuses_def create_record_def emit_def emit_record_def)
  have "0 < length (statuses ?s)" by (simp only: s) simp
  from terminal_status_final[OF this, of "[Emit 1 (str ''late'') (Some False), Close]" Close]
  have "statuses (fold session_step [Emit 1 (str ''late'') (Some False), Close] ?s) ! 0 = statuses ?s ! 0"
    by (simp only: s) simp
  then have "statuses (fold session_step [Emit 1 (str ''late'') (Some False), Close] ?s) ! 0 = Completed"
    by (simp only: s) simp
  with s show ?thesis by (rule conjI)
qed

end
